theory Spec2Isabelle
  imports Main "HOL-Library.List_Lexorder" "HOL-Library.Product_Lexorder" "HOL-Library.Char_ord"
begin

section \<open>The upgrade command of next-codemod (bin/upgrade.ts)\<close>

text \<open>
  The command talks to the npm registry, the file system, the terminal, the package
  manager and the transform runner. Each of these collaborators is an oracle of the
  environment record \<open>env\<close>. The calls with an effect outside the process (the fetch of
  the revision, every \<open>npm view\<close>, every prompt, the write of package.json, the install
  and every transform) are recorded, in program order, in a trace of events; the reads of
  package.json and of the installed version, the detection of the package manager and the
  messages on the console leave no event. A computation takes the trace so far and
  returns its result together with the extended trace. A thrown exception and the
  \<open>process.exit\<close> of a cancelled prompt are values of the type \<open>stop\<close>.
\<close>

subsection \<open>JavaScript strings\<close>

text \<open>\<open>String.prototype.startsWith\<close>.\<close>

fun startsWith :: "string \<Rightarrow> string \<Rightarrow> bool" where
  "startsWith s [] = True"
| "startsWith [] (p # ps) = False"
| "startsWith (c # cs) (p # ps) = (c = p \<and> startsWith cs ps)"

text \<open>\<open>String.prototype.includes\<close>.\<close>

fun includesStr :: "string \<Rightarrow> string \<Rightarrow> bool" where
  "includesStr [] sub = (sub = [])"
| "includesStr (c # cs) sub = (startsWith (c # cs) sub \<or> includesStr cs sub)"

text \<open>\<open>String.prototype.replace\<close> with a string pattern: the first occurrence only.\<close>

fun replace :: "string \<Rightarrow> string \<Rightarrow> string \<Rightarrow> string" where
  "replace [] pat rep = (if pat = [] then rep else [])"
| "replace (c # cs) pat rep =
     (if startsWith (c # cs) pat then rep @ drop (length pat) (c # cs)
      else c # replace cs pat rep)"

text \<open>A value interpolated into a template literal; a missing property reads \<open>undefined\<close>.\<close>

definition interpolate :: "string option \<Rightarrow> string" where
  "interpolate v = (case v of None \<Rightarrow> ''undefined'' | Some s \<Rightarrow> s)"

subsection \<open>JavaScript arrays\<close>

text \<open>\<open>Array.prototype.findIndex\<close>: the first index whose element satisfies the predicate, or -1.\<close>

fun findIndex :: "('a \<Rightarrow> bool) \<Rightarrow> 'a list \<Rightarrow> int" where
  "findIndex P [] = - 1"
| "findIndex P (x # xs) =
     (if P x then 0 else (let i = findIndex P xs in if i = - 1 then - 1 else i + 1))"

text \<open>\<open>Array.prototype.slice\<close>, negative indices counting from the end.\<close>

definition slice :: "'a list \<Rightarrow> int \<Rightarrow> int \<Rightarrow> 'a list" where
  "slice xs start stop =
     (let len = int (length xs);
          s = (if start < 0 then max (len + start) 0 else min start len);
          e = (if stop < 0 then max (len + stop) 0 else min stop len)
      in take (nat (e - s)) (drop (nat s) xs))"

subsection \<open>Data\<close>

text \<open>An entry of \<open>TRANSFORMER_INQUIRER_CHOICES\<close> (lib/utils): \<open>{ title, value, version }\<close>.\<close>

record versionCodemods =
  title :: string
  codemodValue :: string
  version :: string

text \<open>A choice handed to the multiselect prompt: \<open>{ title, description, value, selected }\<close>.\<close>

record choice =
  choiceTitle :: string
  description :: string
  choiceValue :: string
  selected :: bool

text \<open>The project's package.json: the \<open>scripts\<close> object, if there is one, and the other entries.\<close>

record manifest =
  scripts :: "(string \<times> string) list option"
  otherFields :: "(string \<times> string) list"

text \<open>The registry's metadata of the target release, once validated.\<close>

record targetPackageJson =
  targetVersion :: string
  peerDependencies :: "(string \<times> string) list"

text \<open>
  What \<open>fetch\<close> of the registry URL gives: a rejection, or a response with a status and a
  body. A body is not JSON, or the JSON \<open>null\<close>, or a JSON value that is no object, or an
  object with or without the properties \<open>version\<close> and \<open>peerDependencies\<close>.
\<close>

datatype fetchBody =
    NotJson
  | JsonNull
  | JsonNonObject
  | JsonObject "string option" "(string \<times> string) list option"

datatype fetchResult = FetchRejected | Response nat fetchBody

text \<open>
  What \<open>npm view ... --json --field version\<close> prints, parsed: one version, or an array
  of versions ("npm-view returns an array if there are multiple versions matching the
  query").
\<close>

datatype npmOutput = Version string | Versions "string list"

datatype packageManager = Pnpm | Npm | Yarn | Bun

datatype error =
    ManifestUnreadable
  | FetchFailed
  | InvalidRevision string
  | CannotDetectInstalled
  | NpmViewFailed string
  | NoMatchingVersion string
  | TypeError
  | WriteFailed
  | InstallFailed "string list"
  | CodemodFailed string

datatype stop = Throw error | Exit

datatype outcome = AlreadyCurrent | Completed

datatype event =
    Fetch string
  | NpmView string
  | PromptConfirm
  | PromptText string
  | PromptMultiselect "choice list"
  | WriteFile manifest
  | InstallPackages "string list" packageManager bool
  | RunTransform string bool

text \<open>
  The collaborators. A \<open>None\<close> of a prompt is its cancellation; a \<open>False\<close> of
  \<open>writeFileSync\<close>, \<open>installPackages\<close> or \<open>runTransform\<close> is a thrown exception (a rejected
  promise, for the awaited \<open>runTransform\<close>), a \<open>True\<close> is a normal return, whose value the
  command ignores.
\<close>

record env =
  packageJsonFile :: "manifest option"
  fetchNext :: "string \<Rightarrow> fetchResult"
  installedNext :: "string option"
  npmView :: "string \<Rightarrow> npmOutput option"
  promptConfirm :: "bool option"
  promptText :: "string \<Rightarrow> string option"
  promptMultiselect :: "choice list \<Rightarrow> string list option"
  getPkgManager :: packageManager
  writeFileSync :: "manifest \<Rightarrow> bool"
  installPackages :: "string list \<Rightarrow> bool"
  runTransform :: "string \<Rightarrow> bool"

subsection \<open>Computations with a trace\<close>

type_synonym 'a io = "event list \<Rightarrow> (stop + 'a) \<times> event list"

definition returnIO :: "'a \<Rightarrow> 'a io" where
  "returnIO a tr = (Inr a, tr)"

definition throwIO :: "error \<Rightarrow> 'a io" where
  "throwIO e tr = (Inl (Throw e), tr)"

definition exitIO :: "'a io" where
  "exitIO tr = (Inl Exit, tr)"

definition emit :: "event \<Rightarrow> unit io" where
  "emit ev tr = (Inr (), tr @ [ev])"

text \<open>Sequencing: a stop of the first computation skips the rest.\<close>

definition andThen :: "'a io \<Rightarrow> ('a \<Rightarrow> 'b io) \<Rightarrow> 'b io" where
  "andThen m f tr = (case m tr of (Inl s, tr') \<Rightarrow> (Inl s, tr') | (Inr a, tr') \<Rightarrow> f a tr')"

text \<open>
  \<open>Promise.all([p, q])\<close> of two calls of an async function that never awaits: both bodies
  run to their end while the array is built, a throw inside one only rejecting its promise;
  the joint promise then rejects with the first rejection in array order.
\<close>

definition promiseAll2 :: "'a io \<Rightarrow> 'b io \<Rightarrow> ('a \<times> 'b) io" where
  "promiseAll2 p q tr =
     (case p tr of (r1, tr1) \<Rightarrow>
        (case q tr1 of (r2, tr2) \<Rightarrow>
           (case r1 of
              Inl s \<Rightarrow> (Inl s, tr2)
            | Inr a \<Rightarrow> (case r2 of Inl s \<Rightarrow> (Inl s, tr2) | Inr b \<Rightarrow> (Inr (a, b), tr2)))))"

subsection \<open>loadHighestNPMVersionMatching\<close>

text \<open>\<open>versionOrVersions.length\<close>: of the array, or of the string.\<close>

definition jsLength :: "npmOutput \<Rightarrow> nat" where
  "jsLength v = (case v of Version s \<Rightarrow> length s | Versions vs \<Rightarrow> length vs)"

definition loadHighestNPMVersionMatching :: "env \<Rightarrow> string \<Rightarrow> string io" where
  "loadHighestNPMVersionMatching env query =
     andThen (emit (NpmView query)) (\<lambda>_.
       case npmView env query of
         None \<Rightarrow> throwIO (NpmViewFailed query)
       | Some versionOrVersions \<Rightarrow>
           if jsLength versionOrVersions < 1 then throwIO (NoMatchingVersion query)
           else (case versionOrVersions of
                   Versions vs \<Rightarrow> returnIO (vs ! (length vs - 1))
                 | Version v \<Rightarrow> returnIO v))"

subsection \<open>getInstalledNextVersion\<close>

definition getInstalledNextVersion :: "env \<Rightarrow> string io" where
  "getInstalledNextVersion env =
     (case installedNext env of
        None \<Rightarrow> throwIO CannotDetectInstalled
      | Some v \<Rightarrow> returnIO v)"

subsection \<open>suggestTurbopack\<close>

text \<open>Assignment to a property of an object: an existing key keeps its place.\<close>

fun assign :: "string \<Rightarrow> string \<Rightarrow> (string \<times> string) list \<Rightarrow> (string \<times> string) list" where
  "assign k v [] = [(k, v)]"
| "assign k v ((k', v') # kvs) = (if k = k' then (k, v) # kvs else (k', v') # assign k v kvs)"

definition askConfirm :: "env \<Rightarrow> bool io" where
  "askConfirm env =
     andThen (emit PromptConfirm) (\<lambda>_.
       case promptConfirm env of None \<Rightarrow> exitIO | Some enable \<Rightarrow> returnIO enable)"

definition askText :: "env \<Rightarrow> string \<Rightarrow> string io" where
  "askText env initial =
     andThen (emit (PromptText initial)) (\<lambda>_.
       case promptText env initial of None \<Rightarrow> exitIO | Some answer \<Rightarrow> returnIO answer)"

definition askMultiselect :: "env \<Rightarrow> choice list \<Rightarrow> string list io" where
  "askMultiselect env choices =
     andThen (emit (PromptMultiselect choices)) (\<lambda>_.
       case promptMultiselect env choices of None \<Rightarrow> exitIO | Some codemods \<Rightarrow> returnIO codemods)"

text \<open>The function mutates the object it is given; the model returns the mutated object.\<close>

definition suggestTurbopack :: "env \<Rightarrow> manifest \<Rightarrow> manifest io" where
  "suggestTurbopack env packageJson =
     (case scripts packageJson of
        None \<Rightarrow> throwIO TypeError
      | Some scr \<Rightarrow>
          (case map_of scr ''dev'' of
             None \<Rightarrow> throwIO TypeError
           | Some devScript \<Rightarrow>
               if includesStr devScript ''--turbo'' then returnIO packageJson
               else
                 andThen (askConfirm env) (\<lambda>enable.
                   if \<not> enable then returnIO packageJson
                   else if includesStr devScript ''next dev'' then
                     returnIO (packageJson\<lparr>scripts :=
                       Some (assign ''dev'' (replace devScript ''next dev'' ''next dev --turbo'') scr)\<rparr>)
                   else
                     andThen (askText env devScript) (\<lambda>customDevScript.
                       returnIO (packageJson\<lparr>scripts :=
                         Some (assign ''dev''
                           (if customDevScript = [] then devScript else customDevScript) scr)\<rparr>)))))"

subsection \<open>suggestCodemods\<close>

text \<open>
  \<open>compareVersions\<close> (package compare-versions) and the catalogue
  \<open>TRANSFORMER_INQUIRER_CHOICES\<close> (lib/utils) are imported by the file; they are parameters
  of the model.
\<close>

definition toChoice :: "versionCodemods \<Rightarrow> choice" where
  "toChoice c =
     \<lparr> choiceTitle = ''(v'' @ version c @ '') '' @ codemodValue c,
       description = title c,
       choiceValue = codemodValue c,
       selected = True \<rparr>"

definition suggestCodemods ::
  "(string \<Rightarrow> string \<Rightarrow> int) \<Rightarrow> versionCodemods list \<Rightarrow> env \<Rightarrow> string \<Rightarrow> string \<Rightarrow> string list io" where
  "suggestCodemods compareVersions choices env initialNextVersion targetNextVersion =
     (let initialVersionIndex =
            findIndex (\<lambda>vc. compareVersions (version vc) initialNextVersion > 0) choices
      in if initialVersionIndex = - 1 then returnIO []
         else
           let found = findIndex (\<lambda>vc. compareVersions (version vc) targetNextVersion > 0) choices;
               targetVersionIndex = (if found = - 1 then int (length choices) else found);
               relevantCodemods = slice choices initialVersionIndex targetVersionIndex
           in if length relevantCodemods = 0 then returnIO []
              else askMultiselect env (map toChoice (rev relevantCodemods)))"

text \<open>The value of the local \<open>relevantCodemods\<close> of \<open>suggestCodemods\<close> (empty on the first early return).\<close>

definition relevantCodemods ::
  "(string \<Rightarrow> string \<Rightarrow> int) \<Rightarrow> versionCodemods list \<Rightarrow> string \<Rightarrow> string \<Rightarrow> versionCodemods list" where
  "relevantCodemods compareVersions choices initialNextVersion targetNextVersion =
     (let initialVersionIndex =
            findIndex (\<lambda>vc. compareVersions (version vc) initialNextVersion > 0) choices
      in if initialVersionIndex = - 1 then []
         else
           let found = findIndex (\<lambda>vc. compareVersions (version vc) targetNextVersion > 0) choices;
               targetVersionIndex = (if found = - 1 then int (length choices) else found)
           in slice choices initialVersionIndex targetVersionIndex)"

subsection \<open>runUpgrade\<close>

text \<open>Lines 41 and 42: package.json of the working directory, read and parsed.\<close>

definition readPackageJson :: "env \<Rightarrow> manifest io" where
  "readPackageJson env =
     (case packageJsonFile env of
        None \<Rightarrow> throwIO ManifestUnreadable
      | Some m \<Rightarrow> returnIO m)"

text \<open>Lines 49 to 62: the fetch of the revision's metadata and its validation.\<close>

definition fetchTarget :: "env \<Rightarrow> string option \<Rightarrow> targetPackageJson io" where
  "fetchTarget env revision =
     andThen (emit (Fetch (interpolate revision))) (\<lambda>_.
       case fetchNext env (interpolate revision) of
         FetchRejected \<Rightarrow> throwIO FetchFailed
       | Response status body \<Rightarrow>
           if status = 200 then
             (case body of
                NotJson \<Rightarrow> throwIO FetchFailed
              | JsonObject (Some v) (Some peers) \<Rightarrow>
                  returnIO \<lparr> targetVersion = v, peerDependencies = peers \<rparr>
              | _ \<Rightarrow> throwIO (InvalidRevision (interpolate revision)))
           else throwIO (InvalidRevision (interpolate revision)))"

text \<open>
  Line 95, lines 128 to 131 and line 134: the calls of \<open>fs.writeFileSync\<close>, of
  \<open>installPackages\<close> (with \<open>silent: !verbose\<close>) and of \<open>runTransform\<close> (on the working
  directory, with \<open>force: true\<close>).
\<close>

definition writePackageJson :: "env \<Rightarrow> manifest \<Rightarrow> unit io" where
  "writePackageJson env m =
     andThen (emit (WriteFile m)) (\<lambda>_.
       if writeFileSync env m then returnIO () else throwIO WriteFailed)"

definition callInstallPackages :: "env \<Rightarrow> string list \<Rightarrow> packageManager \<Rightarrow> bool \<Rightarrow> unit io" where
  "callInstallPackages env deps pm silent =
     andThen (emit (InstallPackages deps pm silent)) (\<lambda>_.
       if installPackages env deps then returnIO () else throwIO (InstallFailed deps))"

definition callRunTransform :: "env \<Rightarrow> string \<Rightarrow> bool \<Rightarrow> unit io" where
  "callRunTransform env codemod verbose =
     andThen (emit (RunTransform codemod verbose)) (\<lambda>_.
       if runTransform env codemod then returnIO () else throwIO (CodemodFailed codemod))"

text \<open>The loop of lines 133 to 135.\<close>

fun applyCodemods :: "env \<Rightarrow> bool \<Rightarrow> string list \<Rightarrow> unit io" where
  "applyCodemods env verbose [] = returnIO ()"
| "applyCodemods env verbose (codemod # codemods) =
     andThen (callRunTransform env codemod verbose) (\<lambda>_. applyCodemods env verbose codemods)"

text \<open>The condition of lines 103 to 107.\<close>

definition isReact19Prerelease :: "string \<Rightarrow> bool" where
  "isReact19Prerelease v \<longleftrightarrow>
     startsWith v ''19.0.0-canary'' \<or> startsWith v ''19.0.0-beta'' \<or> startsWith v ''19.0.0-rc''"

text \<open>
  The function, in the order of the source. Its early \<open>return\<close> is the outcome
  \<open>AlreadyCurrent\<close>, the end of its body the outcome \<open>Completed\<close>.
\<close>

definition runUpgrade ::
  "(string \<Rightarrow> string \<Rightarrow> int) \<Rightarrow> versionCodemods list \<Rightarrow> env \<Rightarrow> string option \<Rightarrow> bool \<Rightarrow> outcome io" where
  "runUpgrade compareVersions choices env revision verbose =
     andThen (readPackageJson env) (\<lambda>appPackageJson.
     andThen (fetchTarget env revision) (\<lambda>targetNextPackageJson.
     andThen (getInstalledNextVersion env) (\<lambda>installedNextVersion.
       let targetNextVersion = targetVersion targetNextPackageJson;
           reactQuery = interpolate (map_of (peerDependencies targetNextPackageJson) ''react'')
       in
       if compareVersions installedNextVersion targetNextVersion \<ge> 0 then returnIO AlreadyCurrent
       else
     andThen (loadHighestNPMVersionMatching env (''react@'' @ reactQuery)) (\<lambda>targetReactVersion.
     andThen (if compareVersions targetNextVersion ''15.0.0-canary'' \<ge> 0
              then suggestTurbopack env appPackageJson else returnIO appPackageJson)
       (\<lambda>appPackageJson.
     andThen (suggestCodemods compareVersions choices env installedNextVersion targetNextVersion)
       (\<lambda>codemods.
     andThen (writePackageJson env appPackageJson) (\<lambda>_.
       let packageManager = getPkgManager env;
           nextDependency = ''next@'' @ targetNextVersion;
           reactDependencies = [''react@'' @ targetReactVersion, ''react-dom@'' @ targetReactVersion]
       in
     andThen (if isReact19Prerelease targetReactVersion
              then returnIO (reactDependencies @
                     [''@types/react@npm:types-react@rc'', ''@types/react-dom@npm:types-react-dom@rc''])
              else
                andThen (promiseAll2
                           (loadHighestNPMVersionMatching env (''@types/react@'' @ reactQuery))
                           (loadHighestNPMVersionMatching env (''@types/react-dom@'' @ reactQuery)))
                  (\<lambda>(targetReactTypesVersion, targetReactDOMTypesVersion).
                     returnIO (reactDependencies @
                       [''@types/react@'' @ targetReactTypesVersion,
                        ''@types/react-dom@'' @ targetReactDOMTypesVersion])))
       (\<lambda>reactDependencies.
     andThen (callInstallPackages env (nextDependency # reactDependencies) packageManager (\<not> verbose))
       (\<lambda>_.
     andThen (applyCodemods env verbose codemods) (\<lambda>_.
       returnIO Completed))))))))))"

subsection \<open>Semantic-version precedence\<close>

text \<open>
  The theorems take the comparison as a parameter. The instance defined here evaluates
  them on version strings: a version is read as the list of its numeric core fields and
  the list of its prerelease identifiers, and two versions are compared by these keys.
\<close>

definition isDigit :: "char \<Rightarrow> bool" where
  "isDigit c \<longleftrightarrow> c \<in> set ''0123456789''"

definition digitValue :: "char \<Rightarrow> nat" where
  "digitValue c = of_char c - 48"

definition parseNat :: "string \<Rightarrow> nat" where
  "parseNat s = foldl (\<lambda>n c. 10 * n + digitValue c) 0 s"

fun splitOn :: "char \<Rightarrow> string \<Rightarrow> string list" where
  "splitOn d [] = [[]]"
| "splitOn d (c # cs) =
     (if c = d then [] # splitOn d cs
      else (case splitOn d cs of [] \<Rightarrow> [[c]] | w # ws \<Rightarrow> (c # w) # ws))"

definition identifierKey :: "string \<Rightarrow> bool \<times> nat \<times> string" where
  "identifierKey s =
     (if s \<noteq> [] \<and> list_all isDigit s then (False, parseNat s, []) else (True, 0, s))"

text \<open>The key of a version: core fields, absence of a prerelease, prerelease identifiers.\<close>

definition semverKey :: "string \<Rightarrow> nat list \<times> bool \<times> (bool \<times> nat \<times> string) list" where
  "semverKey v =
     (let core = takeWhile (\<lambda>c. c \<noteq> CHR ''-'') v;
          pre = drop 1 (dropWhile (\<lambda>c. c \<noteq> CHR ''-'') v)
      in (map parseNat (splitOn CHR ''.'' core), pre = [],
          map identifierKey (if pre = [] then [] else splitOn CHR ''.'' pre)))"

text \<open>
  Modelled from the spec: \<open>compareVersions\<close> of the package compare-versions, which is not
  part of the repository. The spec's data model fixes its order: numeric core fields are
  compared first, then the prerelease identifiers (a numeric identifier numerically and
  below an alphanumeric one, a shorter list below its extensions), and a version without
  prerelease is above the same core with one. The result is negative, zero or positive.
\<close>

definition semverCompare :: "string \<Rightarrow> string \<Rightarrow> int" where
  "semverCompare a b =
     (if semverKey a < semverKey b then - 1 else if semverKey a = semverKey b then 0 else 1)"

text \<open>What the theorems ask of a comparison: "not above" is transitive.\<close>

definition precedenceTransitive :: "(string \<Rightarrow> string \<Rightarrow> int) \<Rightarrow> bool" where
  "precedenceTransitive cmp \<longleftrightarrow> (\<forall>a b c. cmp a b \<le> 0 \<and> cmp b c \<le> 0 \<longrightarrow> cmp a c \<le> 0)"

text \<open>The catalogue's invariant: insertion order is ascending \<open>version\<close>.\<close>

definition ascending :: "(string \<Rightarrow> string \<Rightarrow> int) \<Rightarrow> versionCodemods list \<Rightarrow> bool" where
  "ascending cmp choices \<longleftrightarrow> sorted_wrt (\<lambda>a b. cmp (version a) (version b) \<le> 0) choices"

subsection \<open>Reading a trace\<close>

text \<open>The versions a parsed \<open>npm view\<close> output lists.\<close>

definition matchingVersions :: "npmOutput \<Rightarrow> string list" where
  "matchingVersions out = (case out of Version v \<Rightarrow> [v] | Versions vs \<Rightarrow> vs)"

fun writesOf :: "event list \<Rightarrow> manifest list" where
  "writesOf [] = []"
| "writesOf (WriteFile m # evs) = m # writesOf evs"
| "writesOf (ev # evs) = writesOf evs"

fun installsOf :: "event list \<Rightarrow> string list list" where
  "installsOf [] = []"
| "installsOf (InstallPackages deps pm silent # evs) = deps # installsOf evs"
| "installsOf (ev # evs) = installsOf evs"

fun transformsOf :: "event list \<Rightarrow> string list" where
  "transformsOf [] = []"
| "transformsOf (RunTransform codemod verbose # evs) = codemod # transformsOf evs"
| "transformsOf (ev # evs) = transformsOf evs"

fun queriesOf :: "event list \<Rightarrow> string list" where
  "queriesOf [] = []"
| "queriesOf (NpmView query # evs) = query # queriesOf evs"
| "queriesOf (ev # evs) = queriesOf evs"

fun selectionsOf :: "event list \<Rightarrow> choice list list" where
  "selectionsOf [] = []"
| "selectionsOf (PromptMultiselect choices # evs) = choices # selectionsOf evs"
| "selectionsOf (ev # evs) = selectionsOf evs"

fun confirmationsOf :: "event list \<Rightarrow> nat" where
  "confirmationsOf [] = 0"
| "confirmationsOf (PromptConfirm # evs) = Suc (confirmationsOf evs)"
| "confirmationsOf (PromptText initial # evs) = Suc (confirmationsOf evs)"
| "confirmationsOf (ev # evs) = confirmationsOf evs"

subsection \<open>Example runs\<close>

text \<open>
  A project on Next.js 13.0.0 upgraded to 15.0.0 with the catalogue of the spec's first
  scenario; every collaborator succeeds and the user keeps every proposed codemod.
\<close>

definition exampleCatalog :: "versionCodemods list" where
  "exampleCatalog =
     [\<lparr> title = ''Transform A'', codemodValue = ''A'', version = ''14.0.0'' \<rparr>,
      \<lparr> title = ''Transform B'', codemodValue = ''B'', version = ''15.0.0'' \<rparr>,
      \<lparr> title = ''Transform C'', codemodValue = ''C'', version = ''15.2.0'' \<rparr>]"

definition exampleEnv :: env where
  "exampleEnv =
     \<lparr> packageJsonFile = Some \<lparr> scripts = Some [(''dev'', ''next dev'')], otherFields = [] \<rparr>,
       fetchNext = (\<lambda>revision.
         if revision = ''15.0.0''
         then Response 200 (JsonObject (Some ''15.0.0'') (Some [(''react'', ''^18.3.0 || ^19.0.0'')]))
         else Response 404 NotJson),
       installedNext = Some ''13.0.0'',
       npmView = (\<lambda>query.
         if query = ''react@^18.3.0 || ^19.0.0'' then Some (Versions [''18.3.0'', ''18.3.2'', ''19.0.0''])
         else if query = ''@types/react@^18.3.0 || ^19.0.0'' then Some (Versions [''18.3.12'', ''19.0.1''])
         else if query = ''@types/react-dom@^18.3.0 || ^19.0.0'' then Some (Version ''19.0.2'')
         else Some (Versions [])),
       promptConfirm = Some True,
       promptText = (\<lambda>initial. Some initial),
       promptMultiselect = (\<lambda>choices. Some (map choiceValue choices)),
       getPkgManager = Npm,
       writeFileSync = (\<lambda>m. True),
       installPackages = (\<lambda>deps. True),
       runTransform = (\<lambda>codemod. True) \<rparr>"

text \<open>The registry lists a patch release of the older major after the newer major, in publication order.\<close>

definition backportEnv :: env where
  "backportEnv =
     exampleEnv\<lparr>npmView := (\<lambda>query. Some (Versions [''18.3.0'', ''19.0.0'', ''18.3.2'']))\<rparr>"

text \<open>The same project already on the target release.\<close>

definition currentEnv :: env where
  "currentEnv = exampleEnv\<lparr>installedNext := Some ''15.0.0''\<rparr>"

text \<open>The package manager fails: \<open>installPackages\<close> throws.\<close>

definition installFailsEnv :: env where
  "installFailsEnv = exampleEnv\<lparr>installPackages := (\<lambda>deps. False)\<rparr>"

text \<open>The registry has no version of the type packages in the peer range of react.\<close>

definition typesMissingEnv :: env where
  "typesMissingEnv =
     exampleEnv\<lparr>npmView := (\<lambda>query.
       if query = ''react@^18.3.0 || ^19.0.0'' then Some (Versions [''18.3.0'', ''18.3.2'', ''19.0.0''])
       else Some (Versions []))\<rparr>"

text \<open>The transform B, the first one applied, fails; or A, the second one, fails.\<close>

definition firstFailsEnv :: env where
  "firstFailsEnv = exampleEnv\<lparr>runTransform := (\<lambda>codemod. codemod \<noteq> ''B'')\<rparr>"

definition secondFailsEnv :: env where
  "secondFailsEnv = exampleEnv\<lparr>runTransform := (\<lambda>codemod. codemod \<noteq> ''A'')\<rparr>"

text \<open>The peer range of react resolves to a release candidate of React 19.\<close>

definition rcEnv :: env where
  "rcEnv =
     exampleEnv\<lparr>npmView := (\<lambda>query.
       if query = ''react@^18.3.0 || ^19.0.0'' then Some (Version ''19.0.0-rc-f994737d14-20240522'')
       else Some (Versions []))\<rparr>"

subsection \<open>The two phases of runUpgrade\<close>

text \<open>
  For the proofs, \<open>runUpgrade\<close> is cut at its only write: \<open>resolvePhase\<close> is the code up to
  the call of \<open>suggestCodemods\<close> (lines 41 to 93), \<open>commitPhase\<close> the code from
  \<open>writeFileSync\<close> on (lines 95 to 143). Lemma \<open>runUpgrade_phases\<close> shows that \<open>runUpgrade\<close> is
  the first followed by the second. The other definitions name the result and the events
  of each step, which do not depend on the trace the step starts from.
\<close>

type_synonym plan = "manifest \<times> string \<times> string \<times> string \<times> string list"

definition resolvePhase ::
  "(string \<Rightarrow> string \<Rightarrow> int) \<Rightarrow> versionCodemods list \<Rightarrow> env \<Rightarrow> string option \<Rightarrow> plan option io" where
  "resolvePhase compareVersions choices env revision =
     andThen (readPackageJson env) (\<lambda>appPackageJson.
     andThen (fetchTarget env revision) (\<lambda>targetNextPackageJson.
     andThen (getInstalledNextVersion env) (\<lambda>installedNextVersion.
       let targetNextVersion = targetVersion targetNextPackageJson;
           reactQuery = interpolate (map_of (peerDependencies targetNextPackageJson) ''react'')
       in
       if compareVersions installedNextVersion targetNextVersion \<ge> 0 then returnIO None
       else
     andThen (loadHighestNPMVersionMatching env (''react@'' @ reactQuery)) (\<lambda>targetReactVersion.
     andThen (if compareVersions targetNextVersion ''15.0.0-canary'' \<ge> 0
              then suggestTurbopack env appPackageJson else returnIO appPackageJson)
       (\<lambda>appPackageJson.
     andThen (suggestCodemods compareVersions choices env installedNextVersion targetNextVersion)
       (\<lambda>codemods.
       returnIO (Some (appPackageJson, targetNextVersion, reactQuery, targetReactVersion, codemods))))))))"

definition reactDependenciesStep :: "env \<Rightarrow> string \<Rightarrow> string \<Rightarrow> string list io" where
  "reactDependenciesStep env reactQuery targetReactVersion =
     (let reactDependencies = [''react@'' @ targetReactVersion, ''react-dom@'' @ targetReactVersion]
      in if isReact19Prerelease targetReactVersion
         then returnIO (reactDependencies @
                [''@types/react@npm:types-react@rc'', ''@types/react-dom@npm:types-react-dom@rc''])
         else
           andThen (promiseAll2
                      (loadHighestNPMVersionMatching env (''@types/react@'' @ reactQuery))
                      (loadHighestNPMVersionMatching env (''@types/react-dom@'' @ reactQuery)))
             (\<lambda>(targetReactTypesVersion, targetReactDOMTypesVersion).
                returnIO (reactDependencies @
                  [''@types/react@'' @ targetReactTypesVersion,
                   ''@types/react-dom@'' @ targetReactDOMTypesVersion])))"

definition commitPhase :: "env \<Rightarrow> bool \<Rightarrow> plan \<Rightarrow> outcome io" where
  "commitPhase env verbose =
     (\<lambda>(appPackageJson, targetNextVersion, reactQuery, targetReactVersion, codemods).
     andThen (writePackageJson env appPackageJson) (\<lambda>_.
     andThen (reactDependenciesStep env reactQuery targetReactVersion) (\<lambda>reactDependencies.
     andThen (callInstallPackages env ((''next@'' @ targetNextVersion) # reactDependencies)
                (getPkgManager env) (\<not> verbose))
       (\<lambda>_.
     andThen (applyCodemods env verbose codemods) (\<lambda>_.
       returnIO Completed)))))"

text \<open>What a registry query resolves to, and the type queries a run issues after the write.\<close>

definition resolveQuery :: "env \<Rightarrow> string \<Rightarrow> stop + string" where
  "resolveQuery env query = fst (loadHighestNPMVersionMatching env query [])"

definition typesQueries :: "string \<Rightarrow> string \<Rightarrow> string list" where
  "typesQueries reactQuery v =
     (if isReact19Prerelease v then []
      else [''@types/react@'' @ reactQuery, ''@types/react-dom@'' @ reactQuery])"

text \<open>The list \<open>reactDependencies\<close> of lines 99 to 122, or the rejection of \<open>Promise.all\<close>.\<close>

definition reactDependencies :: "env \<Rightarrow> string \<Rightarrow> string \<Rightarrow> stop + string list" where
  "reactDependencies env reactQuery v =
     (if isReact19Prerelease v
      then Inr [''react@'' @ v, ''react-dom@'' @ v,
                ''@types/react@npm:types-react@rc'', ''@types/react-dom@npm:types-react-dom@rc'']
      else (case resolveQuery env (''@types/react@'' @ reactQuery) of
              Inl s \<Rightarrow> Inl s
            | Inr a \<Rightarrow>
                (case resolveQuery env (''@types/react-dom@'' @ reactQuery) of
                   Inl s \<Rightarrow> Inl s
                 | Inr b \<Rightarrow> Inr [''react@'' @ v, ''react-dom@'' @ v,
                                 ''@types/react@'' @ a, ''@types/react-dom@'' @ b])))"

text \<open>
  The loop: the transforms it invokes (up to and including the first that fails) and
  how it ends.
\<close>

definition transformEvents :: "bool \<Rightarrow> string list \<Rightarrow> event list" where
  "transformEvents verbose cs = map (\<lambda>c. RunTransform c verbose) cs"

fun invoked :: "env \<Rightarrow> string list \<Rightarrow> string list" where
  "invoked env [] = []"
| "invoked env (c # cs) = c # (if runTransform env c then invoked env cs else [])"

fun loopResult :: "env \<Rightarrow> string list \<Rightarrow> stop + unit" where
  "loopResult env [] = Inr ()"
| "loopResult env (c # cs) =
     (if runTransform env c then loopResult env cs else Inl (Throw (CodemodFailed c)))"

text \<open>The results and the events of the fetch, of \<open>suggestTurbopack\<close> and of \<open>suggestCodemods\<close>.\<close>

definition targetOf :: "env \<Rightarrow> string option \<Rightarrow> stop + targetPackageJson" where
  "targetOf env revision = fst (fetchTarget env revision [])"

definition turbopackResult :: "env \<Rightarrow> manifest \<Rightarrow> stop + manifest" where
  "turbopackResult env m = fst (suggestTurbopack env m [])"

definition turbopackEvents :: "env \<Rightarrow> manifest \<Rightarrow> event list" where
  "turbopackEvents env m = snd (suggestTurbopack env m [])"

definition selection ::
  "(string \<Rightarrow> string \<Rightarrow> int) \<Rightarrow> versionCodemods list \<Rightarrow> env \<Rightarrow> string \<Rightarrow> string \<Rightarrow> stop + string list" where
  "selection cmp choices env installed target =
     (let relevant = relevantCodemods cmp choices installed target
      in if relevant = [] then Inr []
         else (case promptMultiselect env (map toChoice (rev relevant)) of
                 None \<Rightarrow> Inl Exit
               | Some codemods \<Rightarrow> Inr codemods))"

definition selectionEvents ::
  "(string \<Rightarrow> string \<Rightarrow> int) \<Rightarrow> versionCodemods list \<Rightarrow> string \<Rightarrow> string \<Rightarrow> event list" where
  "selectionEvents cmp choices installed target =
     (let relevant = relevantCodemods cmp choices installed target
      in if relevant = [] then [] else [PromptMultiselect (map toChoice (rev relevant))])"

section \<open>Properties\<close>

lemmas io_defs = returnIO_def throwIO_def exitIO_def emit_def andThen_def

subsection \<open>loadHighestNPMVersionMatching\<close>

lemma loadHighest_unfold:
  "loadHighestNPMVersionMatching env query tr =
     (case npmView env query of
        None \<Rightarrow> (Inl (Throw (NpmViewFailed query)), tr @ [NpmView query])
      | Some out \<Rightarrow>
          if jsLength out < 1 then (Inl (Throw (NoMatchingVersion query)), tr @ [NpmView query])
          else (Inr (case out of Versions vs \<Rightarrow> last vs | Version v \<Rightarrow> v), tr @ [NpmView query]))"
  by (auto simp: loadHighestNPMVersionMatching_def io_defs jsLength_def last_conv_nth
           split: option.splits npmOutput.splits)

subsection \<open>Steps and phases\<close>

lemma andThen_assoc: "andThen (andThen m f) g = andThen m (\<lambda>a. andThen (f a) g)"
  by (auto simp: andThen_def fun_eq_iff split: prod.splits sum.splits)

lemma andThen_return: "andThen (returnIO a) f = f a"
  by (auto simp: andThen_def returnIO_def fun_eq_iff)

lemma runUpgrade_phases:
  "runUpgrade cmp choices env revision verbose =
     andThen (resolvePhase cmp choices env revision)
       (\<lambda>p. case p of None \<Rightarrow> returnIO AlreadyCurrent | Some pl \<Rightarrow> commitPhase env verbose pl)"
  unfolding runUpgrade_def resolvePhase_def commitPhase_def reactDependenciesStep_def
  by (simp add: andThen_assoc andThen_return Let_def if_distrib [where f = "\<lambda>m. andThen m f" for f] cong: if_cong)

lemma writesOf_append [simp]: "writesOf (xs @ ys) = writesOf xs @ writesOf ys"
  by (induction xs rule: writesOf.induct) simp_all
lemma installsOf_append [simp]: "installsOf (xs @ ys) = installsOf xs @ installsOf ys"
  by (induction xs rule: installsOf.induct) simp_all
lemma transformsOf_append [simp]: "transformsOf (xs @ ys) = transformsOf xs @ transformsOf ys"
  by (induction xs rule: transformsOf.induct) simp_all
lemma queriesOf_append [simp]: "queriesOf (xs @ ys) = queriesOf xs @ queriesOf ys"
  by (induction xs rule: queriesOf.induct) simp_all
lemma selectionsOf_append [simp]: "selectionsOf (xs @ ys) = selectionsOf xs @ selectionsOf ys"
  by (induction xs rule: selectionsOf.induct) simp_all
lemma confirmationsOf_append [simp]: "confirmationsOf (xs @ ys) = confirmationsOf xs + confirmationsOf ys"
  by (induction xs rule: confirmationsOf.induct) simp_all

lemma transformEvents_proj [simp]:
  "transformsOf (transformEvents verbose cs) = cs"
  "writesOf (transformEvents verbose cs) = []"
  "installsOf (transformEvents verbose cs) = []"
  "queriesOf (transformEvents verbose cs) = []"
  "selectionsOf (transformEvents verbose cs) = []"
  "confirmationsOf (transformEvents verbose cs) = 0"
  by (induction cs) (simp_all add: transformEvents_def)

lemma queryEvents_proj [simp]:
  "transformsOf (map NpmView qs) = []"
  "writesOf (map NpmView qs) = []"
  "installsOf (map NpmView qs) = []"
  "queriesOf (map NpmView qs) = qs"
  "selectionsOf (map NpmView qs) = []"
  "confirmationsOf (map NpmView qs) = 0"
  by (induction qs) simp_all

lemma loadHighest_run:
  "loadHighestNPMVersionMatching env query tr = (resolveQuery env query, tr @ [NpmView query])"
  by (simp add: resolveQuery_def loadHighest_unfold split: option.splits)

lemma writePackageJson_run:
  "writePackageJson env m tr =
     (if writeFileSync env m then Inr () else Inl (Throw WriteFailed), tr @ [WriteFile m])"
  by (simp add: writePackageJson_def io_defs)

lemma callInstallPackages_run:
  "callInstallPackages env deps pm silent tr =
     (if installPackages env deps then Inr () else Inl (Throw (InstallFailed deps)),
      tr @ [InstallPackages deps pm silent])"
  by (simp add: callInstallPackages_def io_defs)

lemma applyCodemods_run:
  "applyCodemods env verbose cs tr = (loopResult env cs, tr @ transformEvents verbose (invoked env cs))"
  by (induction cs arbitrary: tr) (simp_all add: io_defs callRunTransform_def transformEvents_def)

lemma reactDependenciesStep_run:
  "reactDependenciesStep env q v tr =
     (reactDependencies env q v, tr @ map NpmView (typesQueries q v))"
proof (cases "isReact19Prerelease v")
  case True
  then show ?thesis
    by (simp add: reactDependenciesStep_def reactDependencies_def typesQueries_def returnIO_def)
next
  case False
  then show ?thesis
    by (simp add: reactDependenciesStep_def reactDependencies_def typesQueries_def
          promiseAll2_def andThen_def returnIO_def loadHighest_run split: sum.splits)
qed

lemma commitPhase_run:
  "commitPhase env verbose (m, t, q, v, cs) tr =
     (if \<not> writeFileSync env m then (Inl (Throw WriteFailed), tr @ [WriteFile m])
      else (case reactDependencies env q v of
              Inl s \<Rightarrow> (Inl s, tr @ [WriteFile m] @ map NpmView (typesQueries q v))
            | Inr deps \<Rightarrow>
                if \<not> installPackages env ((''next@'' @ t) # deps)
                then (Inl (Throw (InstallFailed ((''next@'' @ t) # deps))),
                      tr @ [WriteFile m] @ map NpmView (typesQueries q v)
                         @ [InstallPackages ((''next@'' @ t) # deps) (getPkgManager env) (\<not> verbose)])
                else (case loopResult env cs of
                        Inl s \<Rightarrow> Inl s
                      | Inr u \<Rightarrow> Inr Completed,
                      tr @ [WriteFile m] @ map NpmView (typesQueries q v)
                         @ [InstallPackages ((''next@'' @ t) # deps) (getPkgManager env) (\<not> verbose)]
                         @ transformEvents verbose (invoked env cs))))"
  by (simp add: commitPhase_def andThen_def writePackageJson_run reactDependenciesStep_run
        callInstallPackages_run applyCodemods_run returnIO_def split: sum.splits)

lemma findIndex_conv:
  "findIndex P xs =
     (if \<exists>x \<in> set xs. P x then int (length (takeWhile (\<lambda>x. \<not> P x) xs)) else - 1)"
  by (induction xs) (auto simp: Let_def)

lemma slice_nat:
  "i \<le> length xs \<Longrightarrow> j \<le> length xs \<Longrightarrow> slice xs (int i) (int j) = take (j - i) (drop i xs)"
  by (simp add: slice_def Let_def min_def nat_diff_distrib')

lemma takeWhile_all: "\<forall>x \<in> set xs. P x \<Longrightarrow> takeWhile P xs = xs"
  by (induction xs) auto

lemma window_filter:
  assumes "sorted_wrt (\<lambda>a b. (P a \<longrightarrow> P b) \<and> (Q a \<longrightarrow> Q b)) xs"
  shows "take (length (takeWhile (\<lambda>x. \<not> Q x) xs) - length (takeWhile (\<lambda>x. \<not> P x) xs))
           (drop (length (takeWhile (\<lambda>x. \<not> P x) xs)) xs)
         = filter (\<lambda>x. P x \<and> \<not> Q x) xs"
  using assms
proof (induction xs)
  case Nil
  then show ?case by simp
next
  case (Cons x xs)
  have rest: "sorted_wrt (\<lambda>a b. (P a \<longrightarrow> P b) \<and> (Q a \<longrightarrow> Q b)) xs"
    using Cons.prems by simp
  show ?case
  proof (cases "Q x")
    case True
    then have "\<forall>y \<in> set xs. Q y" using Cons.prems by auto
    then have "filter (\<lambda>x. P x \<and> \<not> Q x) xs = []" by (auto simp: filter_empty_conv)
    with True show ?thesis by simp
  next
    case notQ: False
    show ?thesis
    proof (cases "P x")
      case True
      then have allP: "\<forall>y \<in> set xs. P y" using Cons.prems by auto
      have "take (length (takeWhile (\<lambda>x. \<not> Q x) xs)) xs = takeWhile (\<lambda>x. \<not> Q x) xs"
        by (metis takeWhile_eq_take)
      also have "\<dots> = filter (\<lambda>x. \<not> Q x) xs"
        using rest by (induction xs) (auto simp: filter_empty_conv)
      also have "\<dots> = filter (\<lambda>x. P x \<and> \<not> Q x) xs"
        using allP by (auto intro: filter_cong)
      finally show ?thesis using True notQ by simp
    next
      case False
      with notQ Cons.IH [OF rest] show ?thesis by simp
    qed
  qed
qed

lemma relevantCodemods_filter:
  assumes tr: "precedenceTransitive cmp" and asc: "ascending cmp choices"
  shows "relevantCodemods cmp choices installed target =
           filter (\<lambda>c. cmp (version c) installed > 0 \<and> cmp (version c) target \<le> 0) choices"
proof -
  let ?P = "\<lambda>c. cmp (version c) installed > 0"
  let ?Q = "\<lambda>c. cmp (version c) target > 0"
  have up: "cmp a v > 0 \<Longrightarrow> cmp a b \<le> 0 \<Longrightarrow> cmp b v > 0" for a b v
    using tr unfolding precedenceTransitive_def by (meson not_le)
  have srt: "sorted_wrt (\<lambda>a b. (?P a \<longrightarrow> ?P b) \<and> (?Q a \<longrightarrow> ?Q b)) choices"
    using asc unfolding ascending_def
    by (rule sorted_wrt_mono_rel [rotated]) (auto intro: up)
  have eq: "(\<lambda>c. ?P c \<and> \<not> ?Q c) = (\<lambda>c. cmp (version c) installed > 0 \<and> cmp (version c) target \<le> 0)"
    by (auto simp: fun_eq_iff)
  show ?thesis
  proof (cases "\<exists>c \<in> set choices. ?P c")
    case False
    then have "filter (\<lambda>c. ?P c \<and> \<not> ?Q c) choices = []"
      by (auto simp: filter_empty_conv)
    with False show ?thesis
      unfolding eq by (simp add: relevantCodemods_def findIndex_conv)
  next
    case True
    have j: "(if \<exists>c \<in> set choices. ?Q c then int (length (takeWhile (\<lambda>c. \<not> ?Q c) choices))
              else int (length choices)) = int (length (takeWhile (\<lambda>c. \<not> ?Q c) choices))"
      by (auto simp: takeWhile_all)
    have "relevantCodemods cmp choices installed target =
            slice choices (int (length (takeWhile (\<lambda>c. \<not> ?P c) choices)))
                          (int (length (takeWhile (\<lambda>c. \<not> ?Q c) choices)))"
      using True j by (auto simp: relevantCodemods_def findIndex_conv Let_def)
    also have "\<dots> = take (length (takeWhile (\<lambda>c. \<not> ?Q c) choices) - length (takeWhile (\<lambda>c. \<not> ?P c) choices))
                       (drop (length (takeWhile (\<lambda>c. \<not> ?P c) choices)) choices)"
      by (rule slice_nat) (simp_all add: length_takeWhile_le)
    also have "\<dots> = filter (\<lambda>c. ?P c \<and> \<not> ?Q c) choices"
      by (rule window_filter [OF srt])
    finally show ?thesis unfolding eq .
  qed
qed

lemma readPackageJson_run:
  "readPackageJson env tr =
     (case packageJsonFile env of None \<Rightarrow> Inl (Throw ManifestUnreadable) | Some m \<Rightarrow> Inr m, tr)"
  by (simp add: readPackageJson_def io_defs split: option.splits)

lemma getInstalled_run:
  "getInstalledNextVersion env tr =
     (case installedNext env of None \<Rightarrow> Inl (Throw CannotDetectInstalled) | Some v \<Rightarrow> Inr v, tr)"
  by (simp add: getInstalledNextVersion_def io_defs split: option.splits)

lemma fetchTarget_run:
  "fetchTarget env revision tr = (targetOf env revision, tr @ [Fetch (interpolate revision)])"
  by (simp add: targetOf_def fetchTarget_def io_defs
           split: fetchResult.splits fetchBody.splits option.splits)

lemma targetOf_cases:
  "targetOf env revision =
     (case fetchNext env (interpolate revision) of
        FetchRejected \<Rightarrow> Inl (Throw FetchFailed)
      | Response status body \<Rightarrow>
          if status = 200 then
            (case body of
               NotJson \<Rightarrow> Inl (Throw FetchFailed)
             | JsonObject (Some v) (Some peers) \<Rightarrow> Inr \<lparr> targetVersion = v, peerDependencies = peers \<rparr>
             | _ \<Rightarrow> Inl (Throw (InvalidRevision (interpolate revision))))
          else Inl (Throw (InvalidRevision (interpolate revision))))"
  by (simp add: targetOf_def fetchTarget_def io_defs
           split: fetchResult.splits fetchBody.splits option.splits)

lemma suggestTurbopack_run:
  "suggestTurbopack env m tr = (turbopackResult env m, tr @ turbopackEvents env m)"
  by (simp add: turbopackResult_def turbopackEvents_def suggestTurbopack_def askConfirm_def
        askText_def io_defs split: option.splits)

lemma turbopackEvents_proj [simp]:
  "writesOf (turbopackEvents env m) = []"
  "installsOf (turbopackEvents env m) = []"
  "transformsOf (turbopackEvents env m) = []"
  "queriesOf (turbopackEvents env m) = []"
  "selectionsOf (turbopackEvents env m) = []"
  by (simp_all add: turbopackEvents_def suggestTurbopack_def askConfirm_def
        askText_def io_defs split: option.splits)

lemma turbopackResult_stop:
  "turbopackResult env m = Inl s \<Longrightarrow> s = Throw TypeError \<or> s = Exit"
  by (simp add: turbopackResult_def suggestTurbopack_def askConfirm_def
        askText_def io_defs split: option.splits if_splits)

lemma suggestCodemods_relevant:
  "suggestCodemods cmp choices env installed target =
     (if relevantCodemods cmp choices installed target = [] then returnIO []
      else askMultiselect env (map toChoice (rev (relevantCodemods cmp choices installed target))))"
  by (simp add: suggestCodemods_def relevantCodemods_def Let_def)

lemma suggestCodemods_run:
  "suggestCodemods cmp choices env installed target tr =
     (selection cmp choices env installed target, tr @ selectionEvents cmp choices installed target)"
  by (simp add: suggestCodemods_relevant selection_def selectionEvents_def askMultiselect_def
        io_defs Let_def split: option.splits)

lemma selectionEvents_proj [simp]:
  "writesOf (selectionEvents cmp choices installed target) = []"
  "installsOf (selectionEvents cmp choices installed target) = []"
  "transformsOf (selectionEvents cmp choices installed target) = []"
  "queriesOf (selectionEvents cmp choices installed target) = []"
  "confirmationsOf (selectionEvents cmp choices installed target) = 0"
  by (simp_all add: selectionEvents_def Let_def)

lemma resolvePhase_run:
  "resolvePhase cmp choices env revision tr =
     (case packageJsonFile env of
        None \<Rightarrow> (Inl (Throw ManifestUnreadable), tr)
      | Some m \<Rightarrow>
          (case targetOf env revision of
             Inl s \<Rightarrow> (Inl s, tr @ [Fetch (interpolate revision)])
           | Inr tgt \<Rightarrow>
               (case installedNext env of
                  None \<Rightarrow> (Inl (Throw CannotDetectInstalled), tr @ [Fetch (interpolate revision)])
                | Some i \<Rightarrow>
                    let t = targetVersion tgt;
                        q = interpolate (map_of (peerDependencies tgt) ''react'');
                        tr1 = tr @ [Fetch (interpolate revision)] @ [NpmView (''react@'' @ q)];
                        turbo = cmp t ''15.0.0-canary'' \<ge> 0;
                        tr2 = tr1 @ (if turbo then turbopackEvents env m else [])
                    in
                    if cmp i t \<ge> 0 then (Inr None, tr @ [Fetch (interpolate revision)])
                    else
                      (case resolveQuery env (''react@'' @ q) of
                         Inl s \<Rightarrow> (Inl s, tr1)
                       | Inr v \<Rightarrow>
                           (case (if turbo then turbopackResult env m else Inr m) of
                              Inl s \<Rightarrow> (Inl s, tr2)
                            | Inr m' \<Rightarrow>
                                (case selection cmp choices env i t of
                                   Inl s \<Rightarrow> (Inl s, tr2 @ selectionEvents cmp choices i t)
                                 | Inr cs \<Rightarrow>
                                     (Inr (Some (m', t, q, v, cs)),
                                      tr2 @ selectionEvents cmp choices i t)))))))"
  by (simp add: resolvePhase_def andThen_def readPackageJson_run fetchTarget_run getInstalled_run
        loadHighest_run suggestTurbopack_run suggestCodemods_run returnIO_def Let_def
      split: option.splits sum.splits)

lemma runUpgrade_run:
  "runUpgrade cmp choices env revision verbose tr =
     (case resolvePhase cmp choices env revision tr of
        (Inl s, tr') \<Rightarrow> (Inl s, tr')
      | (Inr None, tr') \<Rightarrow> (Inr AlreadyCurrent, tr')
      | (Inr (Some p), tr') \<Rightarrow> commitPhase env verbose p tr')"
  by (simp add: runUpgrade_phases andThen_def returnIO_def split: prod.splits sum.splits option.splits)

lemma targetOf_valid:
  "fetchNext env (interpolate revision) = Response 200 (JsonObject (Some t) (Some peers)) \<Longrightarrow>
   targetOf env revision = Inr \<lparr> targetVersion = t, peerDependencies = peers \<rparr>"
  by (simp add: targetOf_cases)

lemma targetOf_stop:
  "targetOf env revision = Inl s \<Longrightarrow>
   s = Throw FetchFailed \<or> s = Throw (InvalidRevision (interpolate revision))"
  by (simp add: targetOf_cases split: fetchResult.splits fetchBody.splits option.splits if_splits)

lemma resolveQuery_stop:
  "resolveQuery env query = Inl s \<Longrightarrow>
   s = Throw (NpmViewFailed query) \<or> s = Throw (NoMatchingVersion query)"
  by (simp add: resolveQuery_def loadHighest_unfold split: option.splits if_splits)

lemma selection_stop: "selection cmp choices env i t = Inl s \<Longrightarrow> s = Exit"
  by (simp add: selection_def Let_def split: option.splits if_splits)

lemma reactDependencies_stop:
  "reactDependencies env q v = Inl s \<Longrightarrow>
   \<not> isReact19Prerelease v \<and>
   (s = Throw (NpmViewFailed (''@types/react@'' @ q)) \<or> s = Throw (NoMatchingVersion (''@types/react@'' @ q))
    \<or> s = Throw (NpmViewFailed (''@types/react-dom@'' @ q)) \<or> s = Throw (NoMatchingVersion (''@types/react-dom@'' @ q)))"
  by (auto simp: reactDependencies_def split: if_splits sum.splits dest: resolveQuery_stop)

text \<open>The resolve phase writes nothing, installs nothing and applies nothing.\<close>

lemma resolvePhase_quiet:
  assumes "resolvePhase cmp choices env revision [] = (r, tr)"
  shows "writesOf tr = [] \<and> installsOf tr = [] \<and> transformsOf tr = []"
  using assms
  by (auto simp: resolvePhase_run Let_def split: option.splits sum.splits if_splits)

lemma resolvePhase_stop:
  assumes "resolvePhase cmp choices env revision [] = (Inl s, tr)"
  shows "s \<in> {Throw ManifestUnreadable, Throw FetchFailed, Throw (InvalidRevision (interpolate revision)),
              Throw CannotDetectInstalled, Throw TypeError, Exit}
         \<or> (\<exists>q. s = Throw (NpmViewFailed (''react@'' @ q)) \<or> s = Throw (NoMatchingVersion (''react@'' @ q)))"
  using assms
  by (auto simp: resolvePhase_run Let_def split: option.splits sum.splits if_splits
          dest: targetOf_stop resolveQuery_stop turbopackResult_stop selection_stop)

lemma resolvePhase_plan:
  assumes "resolvePhase cmp choices env revision [] = (Inr (Some (m', t, q, v, cs)), tr)"
    and "fetchNext env (interpolate revision) = Response 200 (JsonObject (Some target) (Some peers))"
    and "installedNext env = Some installed"
  shows "t = target \<and> q = interpolate (map_of peers ''react'')
       \<and> resolveQuery env (''react@'' @ q) = Inr v
       \<and> selection cmp choices env installed target = Inr cs
       \<and> queriesOf tr = [''react@'' @ q]
       \<and> selectionsOf tr = selectionsOf (selectionEvents cmp choices installed target)
       \<and> cmp installed target < 0"
  using assms
  by (auto simp: resolvePhase_run targetOf_valid Let_def split: option.splits sum.splits if_splits)

subsection \<open>Whole runs\<close>

lemma runUpgrade_cases [consumes 1, case_names stopped current committed]:
  assumes "runUpgrade cmp choices env revision verbose [] = (r, tr)"
  obtains s where "resolvePhase cmp choices env revision [] = (Inl s, tr)" and "r = Inl s"
  | "resolvePhase cmp choices env revision [] = (Inr None, tr)" and "r = Inr AlreadyCurrent"
  | m t q v cs tr0 where "resolvePhase cmp choices env revision [] = (Inr (Some (m, t, q, v, cs)), tr0)"
      and "commitPhase env verbose (m, t, q, v, cs) tr0 = (r, tr)"
  using assms
  by (auto simp: runUpgrade_run split: prod.splits sum.splits option.splits)

lemma resolvePhase_target:
  assumes "resolvePhase cmp choices env revision [] = (Inr (Some (m', t, q, v, cs)), tr)"
    and "fetchNext env (interpolate revision) = Response 200 (JsonObject (Some target) (Some peers))"
  shows "t = target \<and> q = interpolate (map_of peers ''react'')
       \<and> resolveQuery env (''react@'' @ q) = Inr v
       \<and> queriesOf tr = [''react@'' @ q]"
  using assms
  by (auto simp: resolvePhase_run targetOf_valid Let_def split: option.splits sum.splits if_splits)

lemma loopResult_stop:
  "loopResult env cs = Inl s \<Longrightarrow> \<exists>c \<in> set cs. s = Throw (CodemodFailed c) \<and> \<not> runTransform env c"
  by (induction cs) (auto split: if_splits)

lemma loopResult_ok: "loopResult env cs = Inr u \<Longrightarrow> invoked env cs = cs"
  by (induction cs) (auto split: if_splits)

lemma first_failure:
  "i < length cs \<Longrightarrow> \<not> runTransform env (cs ! i) \<Longrightarrow> \<forall>j<i. runTransform env (cs ! j) \<Longrightarrow>
   invoked env cs = take (Suc i) cs \<and> loopResult env cs = Inl (Throw (CodemodFailed (cs ! i)))"
proof (induction cs arbitrary: i)
  case Nil
  then show ?case by simp
next
  case (Cons c cs)
  show ?case
  proof (cases i)
    case 0
    with Cons.prems show ?thesis by simp
  next
    case (Suc k)
    with Cons.prems have "runTransform env c" by auto
    moreover have "k < length cs" "\<not> runTransform env (cs ! k)" "\<forall>j<k. runTransform env (cs ! j)"
      using Cons.prems Suc by auto
    ultimately show ?thesis using Cons.IH [of k] Suc by simp
  qed
qed

lemma reactDependencies_ok:
  "reactDependencies env q v = Inr deps \<Longrightarrow>
   (if isReact19Prerelease v
    then deps = [''react@'' @ v, ''react-dom@'' @ v,
                 ''@types/react@npm:types-react@rc'', ''@types/react-dom@npm:types-react-dom@rc'']
    else \<exists>a b. resolveQuery env (''@types/react@'' @ q) = Inr a
              \<and> resolveQuery env (''@types/react-dom@'' @ q) = Inr b
              \<and> deps = [''react@'' @ v, ''react-dom@'' @ v, ''@types/react@'' @ a, ''@types/react-dom@'' @ b])"
  by (auto simp: reactDependencies_def split: if_splits sum.splits)

lemma fst_suggestCodemods:
  "fst (suggestCodemods cmp choices env installed target tr) = selection cmp choices env installed target"
  by (simp add: suggestCodemods_run)

subsection \<open>The instance of the comparison and the example runs\<close>

lemma semverCompare_le: "semverCompare a b \<le> 0 \<longleftrightarrow> semverKey a \<le> semverKey b"
  by (auto simp: semverCompare_def)

lemma semverCompare_transitive: "precedenceTransitive semverCompare"
  unfolding precedenceTransitive_def semverCompare_le by (blast intro: order_trans)

lemma exampleCatalog_ascending: "ascending semverCompare exampleCatalog"
  by (simp add: ascending_def exampleCatalog_def semverCompare_def semverKey_def parseNat_def
        digitValue_def)

lemma example_window:
  "filter (\<lambda>c. semverCompare (version c) ''13.0.0'' > 0 \<and> semverCompare (version c) ''15.0.0'' \<le> 0)
     exampleCatalog
   = [\<lparr> title = ''Transform A'', codemodValue = ''A'', version = ''14.0.0'' \<rparr>,
      \<lparr> title = ''Transform B'', codemodValue = ''B'', version = ''15.0.0'' \<rparr>]"
  by code_simp

lemma example_run:
  "runUpgrade semverCompare exampleCatalog exampleEnv (Some ''15.0.0'') False [] =
   (Inr Completed,
    [Fetch ''15.0.0'', NpmView ''react@^18.3.0 || ^19.0.0'', PromptConfirm,
     PromptMultiselect
      [\<lparr>choiceTitle = ''(v15.0.0) B'', description = ''Transform B'', choiceValue = ''B'',
          selected = True\<rparr>,
       \<lparr>choiceTitle = ''(v14.0.0) A'', description = ''Transform A'', choiceValue = ''A'',
          selected = True\<rparr>],
     WriteFile \<lparr>scripts = Some [(''dev'', ''next dev --turbo'')], otherFields = []\<rparr>,
     NpmView ''@types/react@^18.3.0 || ^19.0.0'', NpmView ''@types/react-dom@^18.3.0 || ^19.0.0'',
     InstallPackages
      [''next@15.0.0'', ''react@19.0.0'', ''react-dom@19.0.0'', ''@types/react@19.0.1'',
       ''@types/react-dom@19.0.2'']
      Npm True,
     RunTransform ''B'' False, RunTransform ''A'' False])"
  by code_simp

lemma invalidRevision_run:
  "runUpgrade semverCompare exampleCatalog exampleEnv (Some ''not-a-real-tag'') False [] =
   (Inl (Throw (InvalidRevision ''not-a-real-tag'')), [Fetch ''not-a-real-tag''])"
  by code_simp

lemma installFails_run:
  "runUpgrade semverCompare exampleCatalog installFailsEnv (Some ''15.0.0'') False [] =
   (Inl (Throw (InstallFailed [''next@15.0.0'', ''react@19.0.0'', ''react-dom@19.0.0'',
       ''@types/react@19.0.1'', ''@types/react-dom@19.0.2''])),
    [Fetch ''15.0.0'', NpmView ''react@^18.3.0 || ^19.0.0'', PromptConfirm,
     PromptMultiselect
      [\<lparr>choiceTitle = ''(v15.0.0) B'', description = ''Transform B'', choiceValue = ''B'',
          selected = True\<rparr>,
       \<lparr>choiceTitle = ''(v14.0.0) A'', description = ''Transform A'', choiceValue = ''A'',
          selected = True\<rparr>],
     WriteFile \<lparr>scripts = Some [(''dev'', ''next dev --turbo'')], otherFields = []\<rparr>,
     NpmView ''@types/react@^18.3.0 || ^19.0.0'', NpmView ''@types/react-dom@^18.3.0 || ^19.0.0'',
     InstallPackages
      [''next@15.0.0'', ''react@19.0.0'', ''react-dom@19.0.0'', ''@types/react@19.0.1'',
       ''@types/react-dom@19.0.2'']
      Npm True])"
  by code_simp

lemma typesMissing_run:
  "runUpgrade semverCompare exampleCatalog typesMissingEnv (Some ''15.0.0'') False [] =
   (Inl (Throw (NoMatchingVersion ''@types/react@^18.3.0 || ^19.0.0'')),
    [Fetch ''15.0.0'', NpmView ''react@^18.3.0 || ^19.0.0'', PromptConfirm,
     PromptMultiselect
      [\<lparr>choiceTitle = ''(v15.0.0) B'', description = ''Transform B'', choiceValue = ''B'',
          selected = True\<rparr>,
       \<lparr>choiceTitle = ''(v14.0.0) A'', description = ''Transform A'', choiceValue = ''A'',
          selected = True\<rparr>],
     WriteFile \<lparr>scripts = Some [(''dev'', ''next dev --turbo'')], otherFields = []\<rparr>,
     NpmView ''@types/react@^18.3.0 || ^19.0.0'', NpmView ''@types/react-dom@^18.3.0 || ^19.0.0''])"
  by code_simp

lemma firstFails_run:
  "runUpgrade semverCompare exampleCatalog firstFailsEnv (Some ''15.0.0'') False [] =
   (Inl (Throw (CodemodFailed ''B'')),
    [Fetch ''15.0.0'', NpmView ''react@^18.3.0 || ^19.0.0'', PromptConfirm,
     PromptMultiselect
      [\<lparr>choiceTitle = ''(v15.0.0) B'', description = ''Transform B'', choiceValue = ''B'',
          selected = True\<rparr>,
       \<lparr>choiceTitle = ''(v14.0.0) A'', description = ''Transform A'', choiceValue = ''A'',
          selected = True\<rparr>],
     WriteFile \<lparr>scripts = Some [(''dev'', ''next dev --turbo'')], otherFields = []\<rparr>,
     NpmView ''@types/react@^18.3.0 || ^19.0.0'', NpmView ''@types/react-dom@^18.3.0 || ^19.0.0'',
     InstallPackages
      [''next@15.0.0'', ''react@19.0.0'', ''react-dom@19.0.0'', ''@types/react@19.0.1'',
       ''@types/react-dom@19.0.2'']
      Npm True,
     RunTransform ''B'' False])"
  by code_simp

lemma secondFails_run:
  "runUpgrade semverCompare exampleCatalog secondFailsEnv (Some ''15.0.0'') False [] =
   (Inl (Throw (CodemodFailed ''A'')),
    [Fetch ''15.0.0'', NpmView ''react@^18.3.0 || ^19.0.0'', PromptConfirm,
     PromptMultiselect
      [\<lparr>choiceTitle = ''(v15.0.0) B'', description = ''Transform B'', choiceValue = ''B'',
          selected = True\<rparr>,
       \<lparr>choiceTitle = ''(v14.0.0) A'', description = ''Transform A'', choiceValue = ''A'',
          selected = True\<rparr>],
     WriteFile \<lparr>scripts = Some [(''dev'', ''next dev --turbo'')], otherFields = []\<rparr>,
     NpmView ''@types/react@^18.3.0 || ^19.0.0'', NpmView ''@types/react-dom@^18.3.0 || ^19.0.0'',
     InstallPackages
      [''next@15.0.0'', ''react@19.0.0'', ''react-dom@19.0.0'', ''@types/react@19.0.1'',
       ''@types/react-dom@19.0.2'']
      Npm True,
     RunTransform ''B'' False, RunTransform ''A'' False])"
  by code_simp

lemma rc_run:
  "runUpgrade semverCompare exampleCatalog rcEnv (Some ''15.0.0'') False [] =
   (Inr Completed,
    [Fetch ''15.0.0'', NpmView ''react@^18.3.0 || ^19.0.0'', PromptConfirm,
     PromptMultiselect
      [\<lparr>choiceTitle = ''(v15.0.0) B'', description = ''Transform B'', choiceValue = ''B'',
          selected = True\<rparr>,
       \<lparr>choiceTitle = ''(v14.0.0) A'', description = ''Transform A'', choiceValue = ''A'',
          selected = True\<rparr>],
     WriteFile \<lparr>scripts = Some [(''dev'', ''next dev --turbo'')], otherFields = []\<rparr>,
     InstallPackages
      [''next@15.0.0'', ''react@19.0.0-rc-f994737d14-20240522'',
       ''react-dom@19.0.0-rc-f994737d14-20240522'', ''@types/react@npm:types-react@rc'',
       ''@types/react-dom@npm:types-react-dom@rc'']
      Npm True,
     RunTransform ''B'' False, RunTransform ''A'' False])"
  by code_simp

lemma example_selection:
  "fst (suggestCodemods semverCompare exampleCatalog env ''13.0.0'' ''15.0.0'' []) =
     (case promptMultiselect env
             [\<lparr>choiceTitle = ''(v15.0.0) B'', description = ''Transform B'', choiceValue = ''B'',
                 selected = True\<rparr>,
              \<lparr>choiceTitle = ''(v14.0.0) A'', description = ''Transform A'', choiceValue = ''A'',
                 selected = True\<rparr>] of
        None \<Rightarrow> Inl Exit
      | Some codemods \<Rightarrow> Inr codemods)"
  by (simp add: fst_suggestCodemods selection_def
        relevantCodemods_filter [OF semverCompare_transitive exampleCatalog_ascending]
        example_window toChoice_def)

section \<open>The claims\<close>

subsection \<open>C1: the order in which codemods are offered and applied\<close>

text \<open>
  C1, as amended. The claim: the applicable codemods are returned, presented and applied in
  ascending \<open>version\<close> order, the order of the catalogue. The code reverses the applicable
  slice before it builds the choices of the prompt. What holds, for a catalogue in
  ascending order and a run that completes: the choices offered are the descriptors of the
  window in the reverse of the catalogue's order (descending \<open>version\<close>), all of them
  preselected, and the codemods applied are exactly the list the prompt answered, in the
  order of the answer; \<open>runUpgrade\<close> does not reorder that list. When the window is empty
  nothing is offered and nothing is applied.
\<close>

theorem codemods_offered_reversed_applied_as_answered:
  assumes prec: "precedenceTransitive cmp" and asc: "ascending cmp choices"
    and run: "runUpgrade cmp choices env revision verbose [] = (Inr Completed, tr)"
    and fetch: "fetchNext env (interpolate revision) = Response 200 (JsonObject (Some target) (Some peers))"
    and inst: "installedNext env = Some installed"
  shows "(filter (\<lambda>c. cmp (version c) installed > 0 \<and> cmp (version c) target \<le> 0) choices = [] \<longrightarrow>
            selectionsOf tr = [] \<and> transformsOf tr = [])
       \<and> (filter (\<lambda>c. cmp (version c) installed > 0 \<and> cmp (version c) target \<le> 0) choices \<noteq> [] \<longrightarrow>
            selectionsOf tr =
              [map toChoice (rev (filter (\<lambda>c. cmp (version c) installed > 0 \<and> cmp (version c) target \<le> 0) choices))]
          \<and> promptMultiselect env
              (map toChoice (rev (filter (\<lambda>c. cmp (version c) installed > 0 \<and> cmp (version c) target \<le> 0) choices)))
              = Some (transformsOf tr))"
  using run
proof (cases rule: runUpgrade_cases)
  case (stopped s)
  then show ?thesis by simp
next
  case current
  then show ?thesis by simp
next
  case (committed m t q v cs tr0)
  let ?W = "filter (\<lambda>c. cmp (version c) installed > 0 \<and> cmp (version c) target \<le> 0) choices"
  have rel: "relevantCodemods cmp choices installed target = ?W"
    by (rule relevantCodemods_filter [OF prec asc])
  from committed(1) have quiet: "transformsOf tr0 = []"
    by (auto dest: resolvePhase_quiet)
  from resolvePhase_plan [OF committed(1) fetch inst]
  have sel: "selection cmp choices env installed target = Inr cs"
    and evs: "selectionsOf tr0 = selectionsOf (selectionEvents cmp choices installed target)"
    by blast+
  from committed(2) quiet
  have tr: "transformsOf tr = cs" "selectionsOf tr = selectionsOf tr0"
    by (auto simp: commitPhase_run split: if_splits sum.splits dest: loopResult_ok)
  from sel evs show ?thesis
    unfolding tr by (auto simp: selection_def selectionEvents_def rel Let_def split: if_splits option.splits)
qed

text \<open>
  The theorem at the example run, from 13.0.0 to 15.0.0 with the catalogue A (14.0.0),
  B (15.0.0), C (15.2.0): B is offered before A, and the answer B, A is what is applied.
\<close>

theorem codemods_offered_reversed_applied_as_answered_witness:
  "precedenceTransitive semverCompare \<and> ascending semverCompare exampleCatalog
   \<and> map (map choiceValue)
       (selectionsOf (snd (runUpgrade semverCompare exampleCatalog exampleEnv (Some ''15.0.0'') False [])))
       = [[''B'', ''A'']]
   \<and> promptMultiselect exampleEnv
       (map toChoice (rev (filter (\<lambda>c. semverCompare (version c) ''13.0.0'' > 0
                                     \<and> semverCompare (version c) ''15.0.0'' \<le> 0) exampleCatalog)))
       = Some (transformsOf (snd (runUpgrade semverCompare exampleCatalog exampleEnv (Some ''15.0.0'') False [])))"
proof -
  have fetch: "fetchNext exampleEnv (interpolate (Some ''15.0.0''))
                 = Response 200 (JsonObject (Some ''15.0.0'') (Some [(''react'', ''^18.3.0 || ^19.0.0'')]))"
    by (simp add: exampleEnv_def interpolate_def)
  have inst: "installedNext exampleEnv = Some ''13.0.0''"
    by (simp add: exampleEnv_def)
  from codemods_offered_reversed_applied_as_answered
         [OF semverCompare_transitive exampleCatalog_ascending example_run fetch inst]
  show ?thesis
    using semverCompare_transitive exampleCatalog_ascending
    by (simp add: example_window example_run toChoice_def)
qed

text \<open>
  The claim fails at the example run: the catalogue lists A before B, B's version is above
  A's, and the run offers and applies B before A.
\<close>

theorem codemods_ascending_counterexample:
  "map codemodValue exampleCatalog = [''A'', ''B'', ''C'']
   \<and> map version exampleCatalog = [''14.0.0'', ''15.0.0'', ''15.2.0'']
   \<and> semverCompare ''15.0.0'' ''14.0.0'' = 1
   \<and> fst (runUpgrade semverCompare exampleCatalog exampleEnv (Some ''15.0.0'') False []) = Inr Completed
   \<and> map (map choiceValue)
       (selectionsOf (snd (runUpgrade semverCompare exampleCatalog exampleEnv (Some ''15.0.0'') False [])))
       = [[''B'', ''A'']]
   \<and> transformsOf (snd (runUpgrade semverCompare exampleCatalog exampleEnv (Some ''15.0.0'') False []))
       = [''B'', ''A'']"
proof -
  have order: "semverCompare ''15.0.0'' ''14.0.0'' = 1"
    by (simp add: semverCompare_def semverKey_def parseNat_def digitValue_def)
  have catalog: "map codemodValue exampleCatalog = [''A'', ''B'', ''C'']"
    "map version exampleCatalog = [''14.0.0'', ''15.0.0'', ''15.2.0'']"
    by (simp_all add: exampleCatalog_def)
  have run: "fst (runUpgrade semverCompare exampleCatalog exampleEnv (Some ''15.0.0'') False []) = Inr Completed"
    "map (map choiceValue)
       (selectionsOf (snd (runUpgrade semverCompare exampleCatalog exampleEnv (Some ''15.0.0'') False [])))
       = [[''B'', ''A'']]"
    "transformsOf (snd (runUpgrade semverCompare exampleCatalog exampleEnv (Some ''15.0.0'') False []))
       = [''B'', ''A'']"
    by (simp_all add: example_run)
  from order catalog run show ?thesis by simp
qed

subsection \<open>C2: failures of the resolution and the write of package.json\<close>

text \<open>
  C2, as amended. The claim: every resolution failure, the queries for @types/react and
  @types/react-dom included, aborts the run before package.json is written. The code
  writes package.json before it issues the two type queries. What holds: a run that ends
  with the invalid-revision error, or with the no-matching-version error of the react
  query, has written nothing; a run that ends with the no-matching-version error of the
  @types/react or of the @types/react-dom query has written package.json once, and has
  installed nothing and applied no codemod.
\<close>

theorem resolution_failures_and_the_write:
  assumes "runUpgrade cmp choices env revision verbose [] = (Inl (Throw e), tr)"
  shows "(e = InvalidRevision x \<or> e = NoMatchingVersion (''react@'' @ q) \<longrightarrow> writesOf tr = [])
       \<and> (e = NoMatchingVersion (''@types/react@'' @ q) \<or> e = NoMatchingVersion (''@types/react-dom@'' @ q) \<longrightarrow>
            length (writesOf tr) = 1 \<and> installsOf tr = [] \<and> transformsOf tr = [])"
  using assms
proof (cases rule: runUpgrade_cases)
  case (stopped s)
  then have "writesOf tr = []" and "s = Throw e"
    by (auto dest: resolvePhase_quiet)
  moreover have "e \<noteq> NoMatchingVersion (''@types/react@'' @ q)"
    "e \<noteq> NoMatchingVersion (''@types/react-dom@'' @ q)"
    using resolvePhase_stop [OF stopped(1)] \<open>s = Throw e\<close> by auto
  ultimately show ?thesis by simp
next
  case current
  then show ?thesis by simp
next
  case (committed m t q' v cs tr0)
  from committed(1) have quiet: "writesOf tr0 = []" "installsOf tr0 = []" "transformsOf tr0 = []"
    by (auto dest: resolvePhase_quiet)
  from committed(2) quiet show ?thesis
    by (auto simp: commitPhase_run split: if_splits sum.splits list.splits
            dest!: reactDependencies_stop loopResult_stop)
qed

text \<open>
  The theorem at two runs: a revision the registry does not know, and a registry without
  any matching version of @types/react.
\<close>

theorem resolution_failures_and_the_write_witness:
  "fst (runUpgrade semverCompare exampleCatalog exampleEnv (Some ''not-a-real-tag'') False [])
     = Inl (Throw (InvalidRevision ''not-a-real-tag''))
   \<and> writesOf (snd (runUpgrade semverCompare exampleCatalog exampleEnv (Some ''not-a-real-tag'') False [])) = []
   \<and> fst (runUpgrade semverCompare exampleCatalog typesMissingEnv (Some ''15.0.0'') False [])
     = Inl (Throw (NoMatchingVersion (''@types/react@'' @ ''^18.3.0 || ^19.0.0'')))
   \<and> length (writesOf (snd (runUpgrade semverCompare exampleCatalog typesMissingEnv (Some ''15.0.0'') False []))) = 1"
proof -
  have b: "runUpgrade semverCompare exampleCatalog typesMissingEnv (Some ''15.0.0'') False [] =
             (Inl (Throw (NoMatchingVersion (''@types/react@'' @ ''^18.3.0 || ^19.0.0''))),
              snd (runUpgrade semverCompare exampleCatalog typesMissingEnv (Some ''15.0.0'') False []))"
    by (simp add: typesMissing_run)
  from resolution_failures_and_the_write [OF invalidRevision_run, of "''not-a-real-tag''" "[]"]
    resolution_failures_and_the_write [OF b, of "[]" "''^18.3.0 || ^19.0.0''"]
  show ?thesis
    by (simp add: invalidRevision_run typesMissing_run)
qed

text \<open>
  The claim fails where the registry has no matching version of @types/react: the run
  ends with that error after it has written package.json, and the written manifest (its
  dev script now with --turbo) is not the one the file held.
\<close>

theorem types_query_after_write_counterexample:
  "packageJsonFile typesMissingEnv = Some \<lparr> scripts = Some [(''dev'', ''next dev'')], otherFields = [] \<rparr>
   \<and> fst (runUpgrade semverCompare exampleCatalog typesMissingEnv (Some ''15.0.0'') False [])
       = Inl (Throw (NoMatchingVersion ''@types/react@^18.3.0 || ^19.0.0''))
   \<and> writesOf (snd (runUpgrade semverCompare exampleCatalog typesMissingEnv (Some ''15.0.0'') False []))
       = [\<lparr> scripts = Some [(''dev'', ''next dev --turbo'')], otherFields = [] \<rparr>]"
proof -
  have manifest: "packageJsonFile typesMissingEnv
                = Some \<lparr> scripts = Some [(''dev'', ''next dev'')], otherFields = [] \<rparr>"
    by (simp add: typesMissingEnv_def exampleEnv_def)
  have run: "fst (runUpgrade semverCompare exampleCatalog typesMissingEnv (Some ''15.0.0'') False [])
               = Inl (Throw (NoMatchingVersion ''@types/react@^18.3.0 || ^19.0.0''))"
    "writesOf (snd (runUpgrade semverCompare exampleCatalog typesMissingEnv (Some ''15.0.0'') False []))
       = [\<lparr> scripts = Some [(''dev'', ''next dev --turbo'')], otherFields = [] \<rparr>]"
    by (simp_all add: typesMissing_run)
  from manifest run show ?thesis by simp
qed

subsection \<open>C3: the applicability window\<close>

text \<open>
  C3. For a catalogue in ascending order of \<open>version\<close> (the invariant of the catalogue) and a
  comparison whose "not above" is transitive, a descriptor is among the relevant codemods
  of \<open>suggestCodemods\<close> if and only if it is in the catalogue, its version is strictly above
  the installed version and not above the target version; so a descriptor at the
  installed version is left out and one at the target version (above the installed one)
  is taken. The choices \<open>suggestCodemods\<close> offers are made of exactly these descriptors.
\<close>

theorem applicability_window_half_open:
  assumes "precedenceTransitive cmp" and "ascending cmp choices"
  shows "(c \<in> set (relevantCodemods cmp choices installed target) \<longleftrightarrow>
            c \<in> set choices \<and> cmp (version c) installed > 0 \<and> cmp (version c) target \<le> 0)
       \<and> selectionsOf (snd (suggestCodemods cmp choices env installed target [])) =
           (if relevantCodemods cmp choices installed target = [] then []
            else [map toChoice (rev (relevantCodemods cmp choices installed target))])"
  by (auto simp: relevantCodemods_filter [OF assms] suggestCodemods_run selectionEvents_def Let_def)

text \<open>
  The theorem with 14.0.0 installed and the target 15.2.0: A, introduced in the installed
  version, is left out; C, introduced in the target version, is taken.
\<close>

theorem applicability_window_half_open_witness:
  "map codemodValue (relevantCodemods semverCompare exampleCatalog ''14.0.0'' ''15.2.0'') = [''B'', ''C'']
   \<and> \<lparr> title = ''Transform A'', codemodValue = ''A'', version = ''14.0.0'' \<rparr>
        \<notin> set (relevantCodemods semverCompare exampleCatalog ''14.0.0'' ''15.2.0'')
   \<and> \<lparr> title = ''Transform C'', codemodValue = ''C'', version = ''15.2.0'' \<rparr>
        \<in> set (relevantCodemods semverCompare exampleCatalog ''14.0.0'' ''15.2.0'')"
proof -
  have eq: "semverCompare ''14.0.0'' ''14.0.0'' = 0" "semverCompare ''15.2.0'' ''14.0.0'' = 1"
    "semverCompare ''15.2.0'' ''15.2.0'' = 0"
    by (simp_all add: semverCompare_def semverKey_def parseNat_def digitValue_def)
  have mem: "\<lparr> title = ''Transform A'', codemodValue = ''A'', version = ''14.0.0'' \<rparr> \<in> set exampleCatalog"
    "\<lparr> title = ''Transform C'', codemodValue = ''C'', version = ''15.2.0'' \<rparr> \<in> set exampleCatalog"
    by (simp_all add: exampleCatalog_def)
  have val: "map codemodValue (relevantCodemods semverCompare exampleCatalog ''14.0.0'' ''15.2.0'') = [''B'', ''C'']"
    by code_simp
  from applicability_window_half_open [OF semverCompare_transitive exampleCatalog_ascending,
      of "\<lparr> title = ''Transform A'', codemodValue = ''A'', version = ''14.0.0'' \<rparr>"
         "''14.0.0''" "''15.2.0''" exampleEnv]
    applicability_window_half_open [OF semverCompare_transitive exampleCatalog_ascending,
      of "\<lparr> title = ''Transform C'', codemodValue = ''C'', version = ''15.2.0'' \<rparr>"
         "''14.0.0''" "''15.2.0''" exampleEnv]
  show ?thesis using eq mem val by simp
qed

subsection \<open>C4: a failing codemod\<close>

text \<open>
  C4, as amended. The claim: after the transform at index i has failed, the transforms at
  the greater indices are still invoked and the run completes. The loop awaits
  \<open>runTransform\<close> with no handler around it. What holds, for a run that enters the loop with
  the selected sequence \<open>codemods\<close>: if the transform at index i is the first that fails,
  the transforms invoked are exactly those at the indices up to i, in order, and the run
  ends with the error of that transform.
\<close>

theorem codemod_failure_stops_run:
  assumes run: "runUpgrade cmp choices env revision verbose [] = (r, tr)"
    and fetch: "fetchNext env (interpolate revision) = Response 200 (JsonObject (Some target) (Some peers))"
    and inst: "installedNext env = Some installed"
    and sel: "fst (suggestCodemods cmp choices env installed target []) = Inr codemods"
    and reached: "transformsOf tr \<noteq> []"
    and i: "i < length codemods"
    and fails: "\<not> runTransform env (codemods ! i)"
    and before: "\<forall>j<i. runTransform env (codemods ! j)"
  shows "r = Inl (Throw (CodemodFailed (codemods ! i))) \<and> transformsOf tr = take (Suc i) codemods"
  using run
proof (cases rule: runUpgrade_cases)
  case (stopped s)
  with reached show ?thesis by (auto dest: resolvePhase_quiet)
next
  case current
  with reached show ?thesis by (auto dest: resolvePhase_quiet)
next
  case (committed m t q v cs tr0)
  from committed(1) have quiet: "transformsOf tr0 = []"
    by (auto dest: resolvePhase_quiet)
  from resolvePhase_plan [OF committed(1) fetch inst]
  have "selection cmp choices env installed target = Inr cs"
    by blast
  with sel have cs: "cs = codemods"
    by (simp add: fst_suggestCodemods)
  from first_failure [OF i fails before]
  have loop: "invoked env codemods = take (Suc i) codemods"
    "loopResult env codemods = Inl (Throw (CodemodFailed (codemods ! i)))"
    by simp_all
  from committed(2) reached quiet show ?thesis
    unfolding cs by (auto simp: commitPhase_run loop split: if_splits sum.splits)
qed

text \<open>The theorem where the second transform applied, A at index 1, fails.\<close>

theorem codemod_failure_stops_run_witness:
  "fst (runUpgrade semverCompare exampleCatalog secondFailsEnv (Some ''15.0.0'') False [])
     = Inl (Throw (CodemodFailed ''A''))
   \<and> transformsOf (snd (runUpgrade semverCompare exampleCatalog secondFailsEnv (Some ''15.0.0'') False []))
     = take 2 [''B'', ''A'']"
proof -
  let ?run = "runUpgrade semverCompare exampleCatalog secondFailsEnv (Some ''15.0.0'') False []"
  have run: "?run = (fst ?run, snd ?run)"
    by simp
  have fetch: "fetchNext secondFailsEnv (interpolate (Some ''15.0.0''))
                 = Response 200 (JsonObject (Some ''15.0.0'') (Some [(''react'', ''^18.3.0 || ^19.0.0'')]))"
    by (simp add: secondFailsEnv_def exampleEnv_def interpolate_def)
  have inst: "installedNext secondFailsEnv = Some ''13.0.0''"
    by (simp add: secondFailsEnv_def exampleEnv_def)
  have sel: "fst (suggestCodemods semverCompare exampleCatalog secondFailsEnv ''13.0.0'' ''15.0.0'' [])
               = Inr [''B'', ''A'']"
    by (simp add: example_selection secondFailsEnv_def exampleEnv_def)
  have reached: "transformsOf (snd ?run) \<noteq> []"
    by (simp add: secondFails_run)
  have i: "(1::nat) < length [''B'', ''A'']"
    by simp
  have fails: "\<not> runTransform secondFailsEnv ([''B'', ''A''] ! 1)"
    by (simp add: secondFailsEnv_def)
  have before: "\<forall>j<(1::nat). runTransform secondFailsEnv ([''B'', ''A''] ! j)"
    by (simp add: secondFailsEnv_def)
  from codemod_failure_stops_run [OF run fetch inst sel reached i fails before]
  show ?thesis
    by (simp add: numeral_2_eq_2)
qed

text \<open>
  The claim fails where the first transform applied fails: B and A are selected, B fails,
  A is never invoked and the run ends with B's error.
\<close>

theorem codemod_isolation_counterexample:
  "fst (suggestCodemods semverCompare exampleCatalog firstFailsEnv ''13.0.0'' ''15.0.0'' []) = Inr [''B'', ''A'']
   \<and> \<not> runTransform firstFailsEnv ''B''
   \<and> fst (runUpgrade semverCompare exampleCatalog firstFailsEnv (Some ''15.0.0'') False [])
       = Inl (Throw (CodemodFailed ''B''))
   \<and> transformsOf (snd (runUpgrade semverCompare exampleCatalog firstFailsEnv (Some ''15.0.0'') False []))
       = [''B'']"
proof -
  have sel: "fst (suggestCodemods semverCompare exampleCatalog firstFailsEnv ''13.0.0'' ''15.0.0'' [])
               = Inr [''B'', ''A'']"
    by (simp add: example_selection firstFailsEnv_def exampleEnv_def)
  have fails: "\<not> runTransform firstFailsEnv ''B''"
    by (simp add: firstFailsEnv_def)
  have run: "fst (runUpgrade semverCompare exampleCatalog firstFailsEnv (Some ''15.0.0'') False [])
               = Inl (Throw (CodemodFailed ''B''))"
    "transformsOf (snd (runUpgrade semverCompare exampleCatalog firstFailsEnv (Some ''15.0.0'') False []))
       = [''B'']"
    by (simp_all add: firstFails_run)
  from sel fails run show ?thesis by simp
qed

subsection \<open>C5: a failing install\<close>

text \<open>
  C5, as amended. The claim: when the install fails the run still attempts every selected
  codemod. The call of \<open>installPackages\<close> has no handler around it. What holds: if the call
  of \<open>installPackages\<close> a run makes throws, the run ends with that error, package.json has
  been written, and no codemod is applied.
\<close>

theorem install_failure_stops_run:
  assumes "runUpgrade cmp choices env revision verbose [] = (r, tr)"
    and "deps \<in> set (installsOf tr)"
    and "\<not> installPackages env deps"
  shows "r = Inl (Throw (InstallFailed deps)) \<and> transformsOf tr = [] \<and> length (writesOf tr) = 1"
  using assms(1)
proof (cases rule: runUpgrade_cases)
  case (stopped s)
  with assms(2) show ?thesis by (auto dest: resolvePhase_quiet)
next
  case current
  with assms(2) show ?thesis by (auto dest: resolvePhase_quiet)
next
  case (committed m t q v cs tr0)
  from committed(1) have quiet: "writesOf tr0 = []" "installsOf tr0 = []" "transformsOf tr0 = []"
    by (auto dest: resolvePhase_quiet)
  from committed(2) assms(2,3) quiet show ?thesis
    by (auto simp: commitPhase_run split: if_splits sum.splits)
qed

text \<open>The theorem at the run whose package manager fails.\<close>

theorem install_failure_stops_run_witness:
  "\<not> installPackages installFailsEnv [''next@15.0.0'', ''react@19.0.0'', ''react-dom@19.0.0'',
       ''@types/react@19.0.1'', ''@types/react-dom@19.0.2'']
   \<and> length (writesOf (snd (runUpgrade semverCompare exampleCatalog installFailsEnv (Some ''15.0.0'') False []))) = 1"
proof -
  have a: "\<not> installPackages installFailsEnv [''next@15.0.0'', ''react@19.0.0'', ''react-dom@19.0.0'',
       ''@types/react@19.0.1'', ''@types/react-dom@19.0.2'']"
    by (simp add: installFailsEnv_def)
  from install_failure_stops_run [OF installFails_run _ a] a
  show ?thesis by (simp add: installFails_run)
qed

text \<open>
  The claim fails at that run: B and A are selected, the install throws, and no transform
  is invoked.
\<close>

theorem install_failure_counterexample:
  "fst (suggestCodemods semverCompare exampleCatalog installFailsEnv ''13.0.0'' ''15.0.0'' []) = Inr [''B'', ''A'']
   \<and> fst (runUpgrade semverCompare exampleCatalog installFailsEnv (Some ''15.0.0'') False [])
       = Inl (Throw (InstallFailed [''next@15.0.0'', ''react@19.0.0'', ''react-dom@19.0.0'',
           ''@types/react@19.0.1'', ''@types/react-dom@19.0.2'']))
   \<and> transformsOf (snd (runUpgrade semverCompare exampleCatalog installFailsEnv (Some ''15.0.0'') False [])) = []"
proof -
  have sel: "fst (suggestCodemods semverCompare exampleCatalog installFailsEnv ''13.0.0'' ''15.0.0'' [])
               = Inr [''B'', ''A'']"
    by (simp add: example_selection installFailsEnv_def exampleEnv_def)
  have run: "fst (runUpgrade semverCompare exampleCatalog installFailsEnv (Some ''15.0.0'') False [])
       = Inl (Throw (InstallFailed [''next@15.0.0'', ''react@19.0.0'', ''react-dom@19.0.0'',
           ''@types/react@19.0.1'', ''@types/react-dom@19.0.2'']))"
    "transformsOf (snd (runUpgrade semverCompare exampleCatalog installFailsEnv (Some ''15.0.0'') False [])) = []"
    by (simp_all add: installFails_run)
  from sel run show ?thesis by simp
qed

subsection \<open>C6: nothing to do\<close>

text \<open>
  C6. When package.json is readable, the revision resolves to a target version and the
  installed version is read, and the installed version is at or above the target version,
  \<open>runUpgrade\<close> returns the already-current outcome after the fetch of the revision alone: it
  writes nothing, installs nothing, asks nothing and applies no codemod.
\<close>

theorem already_current_is_noop:
  assumes "packageJsonFile env = Some m"
    and "fetchNext env (interpolate revision) = Response 200 (JsonObject (Some target) (Some peers))"
    and "installedNext env = Some installed"
    and "cmp installed target \<ge> 0"
  shows "runUpgrade cmp choices env revision verbose [] = (Inr AlreadyCurrent, [Fetch (interpolate revision)])
       \<and> writesOf (snd (runUpgrade cmp choices env revision verbose [])) = []
       \<and> installsOf (snd (runUpgrade cmp choices env revision verbose [])) = []
       \<and> selectionsOf (snd (runUpgrade cmp choices env revision verbose [])) = []
       \<and> confirmationsOf (snd (runUpgrade cmp choices env revision verbose [])) = 0
       \<and> transformsOf (snd (runUpgrade cmp choices env revision verbose [])) = []"
proof -
  have "runUpgrade cmp choices env revision verbose [] = (Inr AlreadyCurrent, [Fetch (interpolate revision)])"
    using assms by (simp add: runUpgrade_run resolvePhase_run targetOf_valid)
  then show ?thesis by simp
qed

text \<open>The theorem where the installed version equals the target version.\<close>

theorem already_current_is_noop_witness:
  "semverCompare ''15.0.0'' ''15.0.0'' = 0
   \<and> runUpgrade semverCompare exampleCatalog currentEnv (Some ''15.0.0'') True []
       = (Inr AlreadyCurrent, [Fetch ''15.0.0''])"
proof -
  have a: "packageJsonFile currentEnv = Some \<lparr> scripts = Some [(''dev'', ''next dev'')], otherFields = [] \<rparr>"
    by (simp add: currentEnv_def exampleEnv_def)
  have b: "fetchNext currentEnv (interpolate (Some ''15.0.0''))
             = Response 200 (JsonObject (Some ''15.0.0'') (Some [(''react'', ''^18.3.0 || ^19.0.0'')]))"
    by (simp add: currentEnv_def exampleEnv_def interpolate_def)
  have c: "installedNext currentEnv = Some ''15.0.0''"
    by (simp add: currentEnv_def exampleEnv_def)
  have d: "semverCompare ''15.0.0'' ''15.0.0'' \<ge> 0"
    by (simp add: semverCompare_def)
  from already_current_is_noop [where cmp = semverCompare and choices = exampleCatalog
      and verbose = True, OF a b c d]
  show ?thesis by (simp add: semverCompare_def interpolate_def)
qed

subsection \<open>C7 and C8: loadHighestNPMVersionMatching\<close>

text \<open>
  C7. The claim: on a non-empty set of matching versions the function returns the highest
  one by semantic-version precedence. The code returns the last entry of the array
  \<open>npm view\<close> printed, whatever the order of the array: on the listing 18.3.0, 19.0.0, 18.3.2
  it returns 18.3.2, which is below 19.0.0.
\<close>

theorem loadHighest_returns_last_entry:
  "fst (loadHighestNPMVersionMatching backportEnv ''react@^18.3.0 || ^19.0.0'' []) = Inr ''18.3.2''
   \<and> semverCompare ''18.3.2'' ''19.0.0'' = - 1"
proof -
  have "semverCompare ''18.3.2'' ''19.0.0'' = - 1"
    by (simp add: semverCompare_def semverKey_def parseNat_def digitValue_def)
  moreover have "fst (loadHighestNPMVersionMatching backportEnv ''react@^18.3.0 || ^19.0.0'' []) = Inr ''18.3.2''"
    by (simp add: loadHighest_unfold backportEnv_def exampleEnv_def jsLength_def)
  ultimately show ?thesis by simp
qed

text \<open>
  C8. When \<open>npm view\<close> has printed a listing of well-formed (non-empty) version strings, the
  function throws its "found no versions" error exactly when the listing is empty, and
  returns one of the listed versions otherwise.
\<close>

theorem loadHighest_fails_iff_empty:
  assumes "npmView env query = Some out"
    and "\<forall>v \<in> set (matchingVersions out). v \<noteq> []"
  shows "(matchingVersions out = [] \<longrightarrow>
            fst (loadHighestNPMVersionMatching env query tr) = Inl (Throw (NoMatchingVersion query)))
       \<and> (matchingVersions out \<noteq> [] \<longrightarrow>
            (\<exists>v \<in> set (matchingVersions out). fst (loadHighestNPMVersionMatching env query tr) = Inr v))"
  using assms
  by (cases out) (auto simp: loadHighest_unfold matchingVersions_def jsLength_def)

theorem loadHighest_fails_iff_empty_witness:
  "fst (loadHighestNPMVersionMatching exampleEnv ''react@^18.3.0 || ^19.0.0'' []) = Inr ''19.0.0''
   \<and> fst (loadHighestNPMVersionMatching exampleEnv ''react@^20.0.0'' [])
       = Inl (Throw (NoMatchingVersion ''react@^20.0.0''))"
proof -
  have a: "npmView exampleEnv ''react@^18.3.0 || ^19.0.0''
             = Some (Versions [''18.3.0'', ''18.3.2'', ''19.0.0''])"
    by (simp add: exampleEnv_def)
  have b: "\<forall>v \<in> set (matchingVersions (Versions [''18.3.0'', ''18.3.2'', ''19.0.0''])). v \<noteq> []"
    by (simp add: matchingVersions_def)
  have c: "npmView exampleEnv ''react@^20.0.0'' = Some (Versions [])"
    by (simp add: exampleEnv_def)
  have d: "\<forall>v \<in> set (matchingVersions (Versions [])). v \<noteq> []"
    by (simp add: matchingVersions_def)
  from loadHighest_fails_iff_empty [OF a b, of "[]"] loadHighest_fails_iff_empty [OF c d, of "[]"]
  show ?thesis
    by (simp add: matchingVersions_def loadHighest_unfold exampleEnv_def jsLength_def)
qed

subsection \<open>C9 and C10: the React dependencies\<close>

text \<open>
  C9. In a run that completes, the one call of \<open>installPackages\<close> lists, after next, react
  and react-dom at the same version: the version the react query of the peer range
  resolved to. That query is the only registry query of the run whose package name starts
  with react: it is issued once, and none is issued for react-dom.
\<close>

theorem react_dom_pinned_to_react:
  assumes run: "runUpgrade cmp choices env revision verbose [] = (Inr Completed, tr)"
    and fetch: "fetchNext env (interpolate revision) = Response 200 (JsonObject (Some target) (Some peers))"
  shows "\<exists>v types.
           fst (loadHighestNPMVersionMatching env (''react@'' @ interpolate (map_of peers ''react'')) []) = Inr v
         \<and> installsOf tr = [(''next@'' @ target) # (''react@'' @ v) # (''react-dom@'' @ v) # types]
         \<and> filter (\<lambda>query. startsWith query ''react'') (queriesOf tr)
             = [''react@'' @ interpolate (map_of peers ''react'')]"
  using run
proof (cases rule: runUpgrade_cases)
  case (stopped s)
  then show ?thesis by simp
next
  case current
  then show ?thesis by simp
next
  case (committed m t q v cs tr0)
  from committed(1) have quiet: "installsOf tr0 = []"
    by (auto dest: resolvePhase_quiet)
  from resolvePhase_target [OF committed(1) fetch]
  have t: "t = target" and q: "q = interpolate (map_of peers ''react'')"
    and v: "resolveQuery env (''react@'' @ q) = Inr v"
    and qs: "queriesOf tr0 = [''react@'' @ q]"
    by blast+
  from committed(2) obtain deps where deps: "reactDependencies env q v = Inr deps"
    and tr: "installsOf tr = [(''next@'' @ t) # deps]"
      "queriesOf tr = queriesOf tr0 @ typesQueries q v"
    using quiet by (auto simp: commitPhase_run split: if_splits sum.splits)
  from reactDependencies_ok [OF deps] obtain a b
    where shape: "deps = [''react@'' @ v, ''react-dom@'' @ v, a, b]"
    by (auto split: if_splits)
  have "filter (\<lambda>query. startsWith query ''react'') (queriesOf tr) = [''react@'' @ q]"
    by (simp add: tr qs typesQueries_def)
  with v tr shape show ?thesis
    unfolding t q resolveQuery_def by auto
qed

text \<open>The theorem at the example run: react and react-dom are both installed at 19.0.0.\<close>

theorem react_dom_pinned_to_react_witness:
  "fst (loadHighestNPMVersionMatching exampleEnv ''react@^18.3.0 || ^19.0.0'' []) = Inr ''19.0.0''
   \<and> installsOf (snd (runUpgrade semverCompare exampleCatalog exampleEnv (Some ''15.0.0'') False []))
       = [[''next@15.0.0'', ''react@19.0.0'', ''react-dom@19.0.0'', ''@types/react@19.0.1'',
           ''@types/react-dom@19.0.2'']]
   \<and> queriesOf (snd (runUpgrade semverCompare exampleCatalog exampleEnv (Some ''15.0.0'') False []))
       = [''react@^18.3.0 || ^19.0.0'', ''@types/react@^18.3.0 || ^19.0.0'',
          ''@types/react-dom@^18.3.0 || ^19.0.0'']"
proof -
  have fetch: "fetchNext exampleEnv (interpolate (Some ''15.0.0''))
                 = Response 200 (JsonObject (Some ''15.0.0'') (Some [(''react'', ''^18.3.0 || ^19.0.0'')]))"
    by (simp add: exampleEnv_def interpolate_def)
  have react: "fst (loadHighestNPMVersionMatching exampleEnv ''react@^18.3.0 || ^19.0.0'' []) = Inr ''19.0.0''"
    by (simp add: loadHighest_unfold exampleEnv_def jsLength_def)
  from react_dom_pinned_to_react [OF example_run fetch] react
  show ?thesis
    by (simp add: example_run)
qed

text \<open>
  C10. In a run that reaches the install, with the react query of the peer range resolved
  to \<open>v\<close>: if \<open>v\<close> starts with 19.0.0-canary, 19.0.0-beta or 19.0.0-rc, the type
  dependencies installed are the two fixed aliases and the react query is the only
  registry query of the run; otherwise the run has queried the registry for @types/react
  and @types/react-dom, both with the peer range of react, and the type dependencies
  installed are the versions these two queries resolved to.
\<close>

theorem react_types_pinning:
  assumes run: "runUpgrade cmp choices env revision verbose [] = (r, tr)"
    and fetch: "fetchNext env (interpolate revision) = Response 200 (JsonObject (Some target) (Some peers))"
    and react: "fst (loadHighestNPMVersionMatching env (''react@'' @ interpolate (map_of peers ''react'')) []) = Inr v"
    and inst: "installsOf tr = [deps]"
  shows "if startsWith v ''19.0.0-canary'' \<or> startsWith v ''19.0.0-beta'' \<or> startsWith v ''19.0.0-rc''
         then drop 3 deps = [''@types/react@npm:types-react@rc'', ''@types/react-dom@npm:types-react-dom@rc'']
            \<and> queriesOf tr = [''react@'' @ interpolate (map_of peers ''react'')]
         else (\<exists>a b.
                 fst (loadHighestNPMVersionMatching env
                        (''@types/react@'' @ interpolate (map_of peers ''react'')) []) = Inr a
               \<and> fst (loadHighestNPMVersionMatching env
                        (''@types/react-dom@'' @ interpolate (map_of peers ''react'')) []) = Inr b
               \<and> drop 3 deps = [''@types/react@'' @ a, ''@types/react-dom@'' @ b])
            \<and> queriesOf tr = [''react@'' @ interpolate (map_of peers ''react''),
                              ''@types/react@'' @ interpolate (map_of peers ''react''),
                              ''@types/react-dom@'' @ interpolate (map_of peers ''react'')]"
  using run
proof (cases rule: runUpgrade_cases)
  case (stopped s)
  with inst show ?thesis by (auto dest: resolvePhase_quiet)
next
  case current
  with inst show ?thesis by (auto dest: resolvePhase_quiet)
next
  case (committed m t q v' cs tr0)
  from committed(1) have quiet: "installsOf tr0 = []"
    by (auto dest: resolvePhase_quiet)
  from resolvePhase_target [OF committed(1) fetch]
  have q: "q = interpolate (map_of peers ''react'')"
    and v': "resolveQuery env (''react@'' @ q) = Inr v'"
    and qs: "queriesOf tr0 = [''react@'' @ q]"
    by blast+
  from v' react have v: "v' = v"
    unfolding q resolveQuery_def by simp
  from committed(2) inst quiet obtain ds where ds: "reactDependencies env q v = Inr ds"
    and tr: "deps = (''next@'' @ t) # ds" "queriesOf tr = queriesOf tr0 @ typesQueries q v"
    unfolding v by (auto simp: commitPhase_run split: if_splits sum.splits)
  from reactDependencies_ok [OF ds] show ?thesis
    unfolding tr qs q [symmetric]
    by (auto simp: isReact19Prerelease_def typesQueries_def resolveQuery_def split: if_splits)
qed

text \<open>
  The theorem at two runs: react resolved to a release candidate of 19.0.0, and react
  resolved to 19.0.0.
\<close>

theorem react_types_pinning_witness:
  "startsWith ''19.0.0-rc-f994737d14-20240522'' ''19.0.0-rc''
   \<and> drop 3 (hd (installsOf (snd (runUpgrade semverCompare exampleCatalog rcEnv (Some ''15.0.0'') False []))))
       = [''@types/react@npm:types-react@rc'', ''@types/react-dom@npm:types-react-dom@rc'']
   \<and> queriesOf (snd (runUpgrade semverCompare exampleCatalog rcEnv (Some ''15.0.0'') False []))
       = [''react@^18.3.0 || ^19.0.0'']
   \<and> drop 3 (hd (installsOf (snd (runUpgrade semverCompare exampleCatalog exampleEnv (Some ''15.0.0'') False []))))
       = [''@types/react@19.0.1'', ''@types/react-dom@19.0.2'']
   \<and> queriesOf (snd (runUpgrade semverCompare exampleCatalog exampleEnv (Some ''15.0.0'') False []))
       = [''react@^18.3.0 || ^19.0.0'', ''@types/react@^18.3.0 || ^19.0.0'',
          ''@types/react-dom@^18.3.0 || ^19.0.0'']"
proof -
  have fetch: "fetchNext exampleEnv (interpolate (Some ''15.0.0''))
                 = Response 200 (JsonObject (Some ''15.0.0'') (Some [(''react'', ''^18.3.0 || ^19.0.0'')]))"
    by (simp add: exampleEnv_def interpolate_def)
  have fetch_rc: "fetchNext rcEnv (interpolate (Some ''15.0.0''))
                 = Response 200 (JsonObject (Some ''15.0.0'') (Some [(''react'', ''^18.3.0 || ^19.0.0'')]))"
    by (simp add: rcEnv_def exampleEnv_def interpolate_def)
  have react: "fst (loadHighestNPMVersionMatching exampleEnv
                      (''react@'' @ interpolate (map_of [(''react'', ''^18.3.0 || ^19.0.0'')] ''react'')) [])
                 = Inr ''19.0.0''"
    by (simp add: loadHighest_unfold exampleEnv_def jsLength_def interpolate_def)
  have react_rc: "fst (loadHighestNPMVersionMatching rcEnv
                      (''react@'' @ interpolate (map_of [(''react'', ''^18.3.0 || ^19.0.0'')] ''react'')) [])
                 = Inr ''19.0.0-rc-f994737d14-20240522''"
    by (simp add: loadHighest_unfold rcEnv_def exampleEnv_def jsLength_def interpolate_def)
  have inst: "installsOf (snd (runUpgrade semverCompare exampleCatalog exampleEnv (Some ''15.0.0'') False []))
                = [[''next@15.0.0'', ''react@19.0.0'', ''react-dom@19.0.0'', ''@types/react@19.0.1'',
                    ''@types/react-dom@19.0.2'']]"
    by (simp add: example_run)
  have inst_rc: "installsOf (snd (runUpgrade semverCompare exampleCatalog rcEnv (Some ''15.0.0'') False []))
                = [[''next@15.0.0'', ''react@19.0.0-rc-f994737d14-20240522'',
                    ''react-dom@19.0.0-rc-f994737d14-20240522'', ''@types/react@npm:types-react@rc'',
                    ''@types/react-dom@npm:types-react-dom@rc'']]"
    by (simp add: rc_run)
  have run: "runUpgrade semverCompare exampleCatalog exampleEnv (Some ''15.0.0'') False [] =
               (fst (runUpgrade semverCompare exampleCatalog exampleEnv (Some ''15.0.0'') False []),
                snd (runUpgrade semverCompare exampleCatalog exampleEnv (Some ''15.0.0'') False []))"
    by simp
  have run_rc: "runUpgrade semverCompare exampleCatalog rcEnv (Some ''15.0.0'') False [] =
               (fst (runUpgrade semverCompare exampleCatalog rcEnv (Some ''15.0.0'') False []),
                snd (runUpgrade semverCompare exampleCatalog rcEnv (Some ''15.0.0'') False []))"
    by simp
  from react_types_pinning [OF run fetch react inst] react_types_pinning [OF run_rc fetch_rc react_rc inst_rc]
  show ?thesis
    by (simp add: example_run rc_run)
qed

end
